theory Spec2Isabelle
  imports Main "HOL-Library.Sublist" "HOL-Library.AList"
begin

section \<open>Python strings\<close>

text \<open>
  A Python \<open>str\<close> is a sequence of Unicode code points, so it is modelled as a list of
  natural numbers, one per code point (the Greek capital gamma is 915, the full stop 46).
  An ASCII literal of the source is written \<open>u ''...''\<close>.
\<close>

type_synonym ustring = "nat list"

definition u :: "string \<Rightarrow> ustring" where
  "u s = map of_char s"

text \<open>\<open>str.isspace\<close> on one code point: the characters \<open>str.strip()\<close> removes.\<close>

definition is_space :: "nat \<Rightarrow> bool" where
  "is_space c \<longleftrightarrow>
     (9 \<le> c \<and> c \<le> 13) \<or> (28 \<le> c \<and> c \<le> 32) \<or> c = 133 \<or> c = 160 \<or> c = 5760 \<or>
     (8192 \<le> c \<and> c \<le> 8202) \<or> c = 8232 \<or> c = 8233 \<or> c = 8239 \<or> c = 8287 \<or> c = 12288"

text \<open>\<open>s.strip()\<close>.\<close>

definition py_strip :: "ustring \<Rightarrow> ustring" where
  "py_strip s = rev (dropWhile is_space (rev (dropWhile is_space s)))"

text \<open>\<open>needle in hay\<close> and \<open>s.startswith(p)\<close>.\<close>

fun starts_with :: "ustring \<Rightarrow> ustring \<Rightarrow> bool" where
  "starts_with s [] = True"
| "starts_with [] (p # ps) = False"
| "starts_with (c # cs) (p # ps) = (c = p \<and> starts_with cs ps)"

fun py_in :: "ustring \<Rightarrow> ustring \<Rightarrow> bool" where
  "py_in needle [] = (needle = [])"
| "py_in needle (c # cs) = (starts_with (c # cs) needle \<or> py_in needle cs)"

text \<open>
  \<open>s.split(sep)\<close> for a one-character separator: the result is never empty, and
  the text without a separator is its only element. (The split of the rest is therefore
  never \<open>[]\<close>; the first branch of the inner \<open>case\<close> is there for totality.)
\<close>

fun py_split :: "nat \<Rightarrow> ustring \<Rightarrow> ustring list" where
  "py_split sep [] = [[]]"
| "py_split sep (c # cs) =
     (if c = sep then [] # py_split sep cs
      else (case py_split sep cs of
              [] \<Rightarrow> [[c]]
            | f # fs \<Rightarrow> (c # f) # fs))"

text \<open>
  \<open>str(n)\<close> and \<open>int(s)\<close> on decimal text. \<open>int\<close> trims white space, takes an
  optional sign, then decimal digits in which single underscores may stand between two
  digits; anything else is a \<open>ValueError\<close>, here \<open>None\<close>. Only the ASCII digits
  are read as digits.
\<close>

definition is_digit :: "nat \<Rightarrow> bool" where
  "is_digit c \<longleftrightarrow> 48 \<le> c \<and> c \<le> 57"

fun str_nat :: "nat \<Rightarrow> ustring" where
  "str_nat n = (if n < 10 then [48 + n] else str_nat (n div 10) @ [48 + n mod 10])"

declare str_nat.simps [simp del]

definition py_str :: "int \<Rightarrow> ustring" where
  "py_str i = (if i < 0 then 45 # str_nat (nat (- i)) else str_nat (nat i))"

fun int_digits :: "nat \<Rightarrow> ustring \<Rightarrow> nat option" where
  "int_digits acc [] = Some acc"
| "int_digits acc (c # cs) =
     (if c = 95 then
        (case cs of
           [] \<Rightarrow> None
         | d # ds \<Rightarrow> if is_digit d then int_digits acc cs else None)
      else if is_digit c then int_digits (acc * 10 + (c - 48)) cs
      else None)"

definition int_unsigned :: "ustring \<Rightarrow> nat option" where
  "int_unsigned s =
     (case s of
        [] \<Rightarrow> None
      | c # cs \<Rightarrow> if is_digit c then int_digits 0 s else None)"

definition py_int :: "ustring \<Rightarrow> int option" where
  "py_int s =
     (case py_strip s of
        [] \<Rightarrow> None
      | c # cs \<Rightarrow>
          if c = 45 then map_option (\<lambda>n. - int n) (int_unsigned cs)
          else if c = 43 then map_option int (int_unsigned cs)
          else map_option int (int_unsigned (c # cs)))"

section \<open>The shift parser (shift_parser.py)\<close>

text \<open>The dataclass \<open>DailyShift\<close>; an \<open>Optional[str]\<close> field is an option.\<close>

record DailyShift =
  day :: int
  month_name :: ustring
  weekday :: ustring
  attendings :: "ustring list"
  major_shift :: "ustring option"
  minor_shift :: "ustring option"
  tep_cardiologist :: "ustring option"
  senior_cardiac_surgeon :: "ustring option"
  junior_cardiac_surgeon :: "ustring option"
  anesthesiologist_1 :: "ustring option"
  anesthesiologist_2 :: "ustring option"
  pediatric_cardiologist :: "ustring option"

text \<open>
  The state of a \<open>ShiftParser\<close>. The dictionary \<open>self.shifts\<close> keeps its keys in
  insertion order, so it is an association list: \<open>map_of\<close> reads a key,
  \<open>AList.update\<close> assigns one (in place when the key is there, at the end when not).
\<close>

record ShiftParser =
  month_number :: "int option"
  year :: "int option"
  shifts :: "(int \<times> DailyShift) list"

text \<open>
  A loaded document: the texts of its paragraphs and its tables, a table being the list
  of its rows and a row the list of its cell texts.
\<close>

record docx =
  paragraphs :: "ustring list"
  tables :: "ustring list list list"

text \<open>
  The constructor \<open>DailyShift(day=..., month_name=..., weekday=..., attendings=...)\<close>:
  a role field that is not given takes its default, \<open>None\<close>.
\<close>

definition new_shift :: "int \<Rightarrow> ustring \<Rightarrow> ustring \<Rightarrow> ustring list \<Rightarrow> DailyShift" where
  "new_shift d m w names =
     \<lparr>day = d, month_name = m, weekday = w, attendings = names,
      major_shift = None, minor_shift = None, tep_cardiologist = None,
      senior_cardiac_surgeon = None, junior_cardiac_surgeon = None,
      anesthesiologist_1 = None, anesthesiologist_2 = None,
      pediatric_cardiologist = None\<rparr>"

text \<open>\<open>ShiftParser.__init__\<close>.\<close>

definition init_parser :: ShiftParser where
  "init_parser = \<lparr>month_number = None, year = None, shifts = []\<rparr>"

text \<open>
  \<open>_parse_attending_table\<close>: the body of the loop for one row, then the loop. The
  row's cells are trimmed; a row of fewer than four cells, or whose first cell is not an
  integer, is skipped.
\<close>

definition attending_names :: "ustring \<Rightarrow> ustring list" where
  "attending_names names_raw =
     filter (\<lambda>name. name \<noteq> [] \<and> 42 \<notin> set name) (map py_strip (py_split 10 names_raw))"

definition attending_row :: "ShiftParser \<Rightarrow> ustring list \<Rightarrow> ShiftParser" where
  "attending_row st row =
     (let cells = map py_strip row in
      if length cells < 4 then st
      else (case py_int (cells ! 0) of
              None \<Rightarrow> st
            | Some d \<Rightarrow>
                (let names = attending_names (cells ! 3) in
                 case map_of (shifts st) d of
                   None \<Rightarrow>
                     st\<lparr>shifts := AList.update d
                        (new_shift d (cells ! 1) (cells ! 2) names) (shifts st)\<rparr>
                 | Some s \<Rightarrow>
                     st\<lparr>shifts := AList.update d (s\<lparr>attendings := names\<rparr>) (shifts st)\<rparr>)))"

fun parse_attending_table :: "ShiftParser \<Rightarrow> ustring list list \<Rightarrow> ShiftParser" where
  "parse_attending_table st [] = st"
| "parse_attending_table st (row # rows) = parse_attending_table (attending_row st row) rows"

text \<open>
  \<open>_parse_resident_table\<close>. \<open>cells[i] if cells[i] else None\<close> is \<open>cell_opt\<close>;
  the columns 6 to 8 are read only when the row has them (the columns 3 to 5 are there in
  every row that passes the length test). A new record is built with the six role values
  of the row; the two surgeon fields keep their default. Row 0 is the header.
\<close>

definition cell_opt :: "ustring list \<Rightarrow> nat \<Rightarrow> ustring option" where
  "cell_opt cells i = (if i < length cells \<and> cells ! i \<noteq> [] then Some (cells ! i) else None)"

definition resident_row :: "ShiftParser \<Rightarrow> ustring list \<Rightarrow> ShiftParser" where
  "resident_row st row =
     (let cells = map py_strip row in
      if length cells < 6 then st
      else (case py_int (cells ! 0) of
              None \<Rightarrow> st
            | Some d \<Rightarrow>
                (case map_of (shifts st) d of
                   Some s \<Rightarrow>
                     st\<lparr>shifts := AList.update d
                        (s\<lparr>major_shift := cell_opt cells 3,
                           minor_shift := cell_opt cells 4,
                           tep_cardiologist := cell_opt cells 5,
                           anesthesiologist_1 := cell_opt cells 6,
                           anesthesiologist_2 := cell_opt cells 7,
                           pediatric_cardiologist := cell_opt cells 8\<rparr>) (shifts st)\<rparr>
                 | None \<Rightarrow>
                     st\<lparr>shifts := AList.update d
                        ((new_shift d (cells ! 1) (cells ! 2) [])
                           \<lparr>major_shift := cell_opt cells 3,
                            minor_shift := cell_opt cells 4,
                            tep_cardiologist := cell_opt cells 5,
                            anesthesiologist_1 := cell_opt cells 6,
                            anesthesiologist_2 := cell_opt cells 7,
                            pediatric_cardiologist := cell_opt cells 8\<rparr>) (shifts st)\<rparr>)))"

fun resident_rows :: "ShiftParser \<Rightarrow> ustring list list \<Rightarrow> ShiftParser" where
  "resident_rows st [] = st"
| "resident_rows st (row # rows) = resident_rows (resident_row st row) rows"

definition parse_resident_table :: "ShiftParser \<Rightarrow> ustring list list \<Rightarrow> ShiftParser" where
  "parse_resident_table st table = resident_rows st (drop 1 table)"

text \<open>
  The dictionary \<open>GREEK_MONTHS\<close>, in the order it is written (the order in which
  the source iterates over it): the nominative and the genitive of every month name, in
  capitals.
\<close>

definition GREEK_MONTHS :: "(ustring \<times> int) list" where
  "GREEK_MONTHS =
     [
      \<comment> \<open>line 71: IANOYARIOS\<close>
      ([921, 913, 925, 927, 933, 913, 929, 921, 927, 931], 1),
      \<comment> \<open>line 71: IANOYARIOY\<close>
      ([921, 913, 925, 927, 933, 913, 929, 921, 927, 933], 1),
      \<comment> \<open>line 72: FEVROYARIOS\<close>
      ([934, 917, 914, 929, 927, 933, 913, 929, 921, 927, 931], 2),
      \<comment> \<open>line 72: FEVROYARIOY\<close>
      ([934, 917, 914, 929, 927, 933, 913, 929, 921, 927, 933], 2),
      \<comment> \<open>line 73: MARTIOS\<close>
      ([924, 913, 929, 932, 921, 927, 931], 3),
      \<comment> \<open>line 73: MARTIOY\<close>
      ([924, 913, 929, 932, 921, 927, 933], 3),
      \<comment> \<open>line 74: APRILIOS\<close>
      ([913, 928, 929, 921, 923, 921, 927, 931], 4),
      \<comment> \<open>line 74: APRILIOY\<close>
      ([913, 928, 929, 921, 923, 921, 927, 933], 4),
      \<comment> \<open>line 75: MAIOS\<close>
      ([924, 913, 938, 927, 931], 5),
      \<comment> \<open>line 75: MAIOY\<close>
      ([924, 913, 921, 927, 933], 5),
      \<comment> \<open>line 76: IOYNIOS\<close>
      ([921, 927, 933, 925, 921, 927, 931], 6),
      \<comment> \<open>line 76: IOYNIOY\<close>
      ([921, 927, 933, 925, 921, 927, 933], 6),
      \<comment> \<open>line 77: IOYLIOS\<close>
      ([921, 927, 933, 923, 921, 927, 931], 7),
      \<comment> \<open>line 77: IOYLIOY\<close>
      ([921, 927, 933, 923, 921, 927, 933], 7),
      \<comment> \<open>line 78: AYGOYSTOS\<close>
      ([913, 933, 915, 927, 933, 931, 932, 927, 931], 8),
      \<comment> \<open>line 78: AYGOYSTOY\<close>
      ([913, 933, 915, 927, 933, 931, 932, 927, 933], 8),
      \<comment> \<open>line 79: SEPTEMVRIOS\<close>
      ([931, 917, 928, 932, 917, 924, 914, 929, 921, 927, 931], 9),
      \<comment> \<open>line 79: SEPTEMVRIOY\<close>
      ([931, 917, 928, 932, 917, 924, 914, 929, 921, 927, 933], 9),
      \<comment> \<open>line 80: OKTOVRIOS\<close>
      ([927, 922, 932, 937, 914, 929, 921, 927, 931], 10),
      \<comment> \<open>line 80: OKTOVRIOY\<close>
      ([927, 922, 932, 937, 914, 929, 921, 927, 933], 10),
      \<comment> \<open>line 81: NOEMVRIOS\<close>
      ([925, 927, 917, 924, 914, 929, 921, 927, 931], 11),
      \<comment> \<open>line 81: NOEMVRIOY\<close>
      ([925, 927, 917, 924, 914, 929, 921, 927, 933], 11),
      \<comment> \<open>line 82: DEKEMVRIOS\<close>
      ([916, 917, 922, 917, 924, 914, 929, 921, 927, 931], 12),
      \<comment> \<open>line 82: DEKEMVRIOY\<close>
      ([916, 917, 922, 917, 924, 914, 929, 921, 927, 933], 12)
     ]"

text \<open>
  \<open>_extract_month_year\<close>. Two library calls are parameters of the model:
  \<open>upper\<close> is \<open>str.upper\<close>, and \<open>year_search text\<close> is the year that
  \<open>re.search(r'\b(20\d{2})\b', text)\<close> finds, converted by \<open>int\<close>, or
  \<open>None\<close> when the pattern matches nowhere. \<open>scan_months\<close> is the inner loop over
  the month names for one paragraph: a name found in the text sets the month at once; the
  function returns only when the year is found as well.
\<close>

fun scan_months ::
  "(ustring \<Rightarrow> int option) \<Rightarrow> ustring \<Rightarrow> (ustring \<times> int) list \<Rightarrow> ShiftParser
     \<Rightarrow> bool \<times> ShiftParser" where
  "scan_months year_search text [] st = (False, st)"
| "scan_months year_search text ((name, num) # rest) st =
     (if py_in name text then
        (let st' = st\<lparr>month_number := Some num\<rparr> in
         case year_search text of
           Some y \<Rightarrow> (True, st'\<lparr>year := Some y\<rparr>)
         | None \<Rightarrow> scan_months year_search text rest st')
      else scan_months year_search text rest st)"

fun extract_month_year ::
  "(ustring \<Rightarrow> ustring) \<Rightarrow> (ustring \<Rightarrow> int option) \<Rightarrow> ustring list \<Rightarrow> ShiftParser
     \<Rightarrow> bool \<times> ShiftParser" where
  "extract_month_year upper year_search [] st = (False, st)"
| "extract_month_year upper year_search (para # paras) st =
     (case scan_months year_search (upper (py_strip para)) GREEK_MONTHS st of
        (True, st') \<Rightarrow> (True, st')
      | (False, st') \<Rightarrow> extract_month_year upper year_search paras st')"

text \<open>
  \<open>parse\<close>. The document is \<open>None\<close> when \<open>Document(self.docx_path)\<close> raises (the
  file cannot be read): the \<open>except\<close> clause then returns \<open>False\<close>. Nothing else inside
  the \<open>try\<close> raises on a loaded document: the one conversion that can fail,
  \<open>int(cells[0])\<close>, is caught by the row loops.
\<close>

definition parse ::
  "(ustring \<Rightarrow> ustring) \<Rightarrow> (ustring \<Rightarrow> int option) \<Rightarrow> docx option \<Rightarrow> ShiftParser
     \<Rightarrow> bool \<times> ShiftParser" where
  "parse upper year_search document st =
     (case document of
        None \<Rightarrow> (False, st)
      | Some doc \<Rightarrow>
          (case extract_month_year upper year_search (paragraphs doc) st of
             (False, st') \<Rightarrow> (False, st')
           | (True, st') \<Rightarrow>
               if length (tables doc) < 2 then (False, st')
               else (True, parse_resident_table
                             (parse_attending_table st' (tables doc ! 0))
                             (tables doc ! 1))))"

text \<open>
  \<open>update_shift\<close>. \<open>setattr(shift, field, v)\<close> for the eight role fields is
  \<open>setattr_role\<close>, and \<open>getattr_role\<close> reads such a field by its name.
\<close>

definition role_fields :: "ustring list" where
  "role_fields =
     [u ''major_shift'', u ''minor_shift'', u ''tep_cardiologist'',
      u ''senior_cardiac_surgeon'', u ''junior_cardiac_surgeon'',
      u ''anesthesiologist_1'', u ''anesthesiologist_2'', u ''pediatric_cardiologist'']"

definition setattr_role :: "DailyShift \<Rightarrow> ustring \<Rightarrow> ustring option \<Rightarrow> DailyShift" where
  "setattr_role s field v =
     (if field = u ''major_shift'' then s\<lparr>major_shift := v\<rparr>
      else if field = u ''minor_shift'' then s\<lparr>minor_shift := v\<rparr>
      else if field = u ''tep_cardiologist'' then s\<lparr>tep_cardiologist := v\<rparr>
      else if field = u ''senior_cardiac_surgeon'' then s\<lparr>senior_cardiac_surgeon := v\<rparr>
      else if field = u ''junior_cardiac_surgeon'' then s\<lparr>junior_cardiac_surgeon := v\<rparr>
      else if field = u ''anesthesiologist_1'' then s\<lparr>anesthesiologist_1 := v\<rparr>
      else if field = u ''anesthesiologist_2'' then s\<lparr>anesthesiologist_2 := v\<rparr>
      else if field = u ''pediatric_cardiologist'' then s\<lparr>pediatric_cardiologist := v\<rparr>
      else s)"

definition getattr_role :: "DailyShift \<Rightarrow> ustring \<Rightarrow> ustring option" where
  "getattr_role s field =
     (if field = u ''major_shift'' then major_shift s
      else if field = u ''minor_shift'' then minor_shift s
      else if field = u ''tep_cardiologist'' then tep_cardiologist s
      else if field = u ''senior_cardiac_surgeon'' then senior_cardiac_surgeon s
      else if field = u ''junior_cardiac_surgeon'' then junior_cardiac_surgeon s
      else if field = u ''anesthesiologist_1'' then anesthesiologist_1 s
      else if field = u ''anesthesiologist_2'' then anesthesiologist_2 s
      else if field = u ''pediatric_cardiologist'' then pediatric_cardiologist s
      else None)"

definition update_shift ::
  "ShiftParser \<Rightarrow> int \<Rightarrow> ustring \<Rightarrow> ustring \<Rightarrow> bool \<times> ShiftParser" where
  "update_shift st d field val =
     (case map_of (shifts st) d of
        None \<Rightarrow> (False, st)
      | Some shift \<Rightarrow>
          if field = u ''attendings'' then
            (True, st\<lparr>shifts := AList.update d
               (shift\<lparr>attendings :=
                  map py_strip (filter (\<lambda>name. py_strip name \<noteq> []) (py_split 44 val))\<rparr>)
               (shifts st)\<rparr>)
          else if field \<in> set role_fields then
            (True, st\<lparr>shifts := AList.update d
               (setattr_role shift field
                  (if py_strip val \<noteq> [] then Some (py_strip val) else None))
               (shifts st)\<rparr>)
          else (False, st))"

section \<open>What the two tables say about a day\<close>

text \<open>
  The day a row of the attending table is about: the integer in its first cell, when
  the row has four cells or more; likewise for the resident table, with six cells. The
  days of a table are those of its rows (the resident table without its header row).
\<close>

definition attending_day :: "ustring list \<Rightarrow> int option" where
  "attending_day row = (if length row < 4 then None else py_int (py_strip (row ! 0)))"

definition resident_day :: "ustring list \<Rightarrow> int option" where
  "resident_day row = (if length row < 6 then None else py_int (py_strip (row ! 0)))"

definition days_attending :: "ustring list list \<Rightarrow> int set" where
  "days_attending table = set (List.map_filter attending_day table)"

definition days_resident :: "ustring list list \<Rightarrow> int set" where
  "days_resident table = set (List.map_filter resident_day (drop 1 table))"








text \<open>The invariant of the two passes: no record has a surgeon.\<close>

definition no_surgeons :: "ShiftParser \<Rightarrow> bool" where
  "no_surgeons st \<longleftrightarrow>
     (\<forall>(d, s) \<in> set (shifts st).
        senior_cardiac_surgeon s = None \<and> junior_cardiac_surgeon s = None)"

text \<open>
  A sample document: a title, the marker paragraph (the month of October, in capitals,
  and the year 2025), an attending table of one row for day 1, of three names of which
  one is starred, and a resident table of a header and rows for the days 1 and 2. The
  sample year search finds 2025 in the texts that contain it.
\<close>

definition sample_doc :: docx where
  "sample_doc =
     \<lparr>paragraphs = [u ''Schedule'', [927, 922, 932, 937, 914, 929, 921, 927, 931] @ u '' 2025''],
      tables =
        [[[u ''1'', u ''Oct'', u ''Wed'', u ''Alpha'' @ [10] @ u ''Beta*'' @ [10] @ u '' Gamma '']],
         [[u ''Day'', u ''Month'', u ''Weekday'', u ''Major'', u ''Minor'', u ''TEP''],
          [u ''1'', u ''Oct'', u ''Wed'', u ''Delta'', [], u ''Eps''],
          [u ''2'', u ''Oct'', u ''Thu'', u ''Zeta'', u ''Eta'', [], u ''Theta'']]]\<rparr>"

definition sample_year :: "ustring \<Rightarrow> int option" where
  "sample_year t = (if py_in (u ''2025'') t then Some 2025 else None)"

text \<open>
  The month and year marker: a paragraph whose text, trimmed and in capitals, contains
  a month name of \<open>GREEK_MONTHS\<close> and in which the year search succeeds.
\<close>

definition has_marker ::
  "(ustring \<Rightarrow> ustring) \<Rightarrow> (ustring \<Rightarrow> int option) \<Rightarrow> ustring list \<Rightarrow> bool" where
  "has_marker upper year_search paras \<longleftrightarrow>
     (\<exists>para \<in> set paras.
        (\<exists>(name, num) \<in> set GREEK_MONTHS. py_in name (upper (py_strip para))) \<and>
        year_search (upper (py_strip para)) \<noteq> None)"

text \<open>A sample state: one record, for day 1, with one attending.\<close>

definition sample_state :: ShiftParser where
  "sample_state =
     \<lparr>month_number = Some 10, year = Some 2025,
      shifts = [(1, new_shift 1 [] [] [u ''X''])]\<rparr>"

section \<open>The shift snapshot (save_to_json, load_from_json)\<close>















section \<open>The duty scraper (moh_scraper.py)\<close>

text \<open>The dataclass \<open>Hospital\<close>: one duty record.\<close>

record Hospital =
  name :: ustring
  specialty :: ustring
  time_slot :: ustring
  on_duty_date :: ustring
  address :: ustring
  phone :: ustring
  area :: ustring

text \<open>
  \<open>Hospital(name=..., specialty=..., time_slot=..., on_duty_date=...)\<close>: the address,
  the phone and the area take their default, the empty string.
\<close>

definition new_hospital :: "ustring \<Rightarrow> ustring \<Rightarrow> ustring \<Rightarrow> ustring \<Rightarrow> Hospital" where
  "new_hospital n s t d =
     \<lparr>name = n, specialty = s, time_slot = t, on_duty_date = d,
      address = [], phone = [], area = []\<rparr>"

text \<open>
  The dictionary \<open>HOSPITAL_NAMES\<close> (abbreviation, in capitals, to full name), in the
  order it is written, which is the order the tokenizer tries the abbreviations in.
\<close>

definition HOSPITAL_NAMES :: "(ustring \<times> ustring) list" where
  "HOSPITAL_NAMES =
     [
      \<comment> \<open>line 37: EYAGGELISMOS\<close>
      ([917, 933, 913, 915, 915, 917, 923, 921, 931, 924, 927, 931],
       [915, 949, 957, 953, 954, 972, 32, 925, 959, 963, 959, 954, 959, 956, 949, 943, 959,
       32, 913, 952, 951, 957, 974, 957, 32, 171, 927, 32, 917, 965, 945, 947, 947, 949, 955,
       953, 963, 956, 972, 962, 187]),
      \<comment> \<open>line 38: LAIKO\<close>
      ([923, 913, 938, 922, 927],
       [915, 949, 957, 953, 954, 972, 32, 925, 959, 963, 959, 954, 959, 956, 949, 943, 959,
       32, 913, 952, 951, 957, 974, 957, 32, 171, 923, 945, 970, 954, 972, 187]),
      \<comment> \<open>line 39: ELPIS\<close>
      ([917, 923, 928, 921, 931],
       [915, 949, 957, 953, 954, 972, 32, 925, 959, 963, 959, 954, 959, 956, 949, 943, 959,
       32, 913, 952, 951, 957, 974, 957, 32, 171, 917, 955, 960, 943, 962, 187]),
      \<comment> \<open>line 40: AG. ANARGYROI\<close>
      ([913, 915, 46, 32, 913, 925, 913, 929, 915, 933, 929, 927, 921],
       [915, 949, 957, 953, 954, 972, 32, 927, 953, 954, 959, 965, 956, 949, 957, 953, 954,
       972, 32, 925, 959, 963, 959, 954, 959, 956, 949, 943, 959, 32, 922, 961, 945, 964,
       953, 954, 972, 32, 171, 902, 947, 953, 959, 953, 32, 913, 957, 940, 961, 947, 965,
       961, 959, 953, 187]),
      \<comment> \<open>line 41: SISMANOGLEIO\<close>
      ([931, 921, 931, 924, 913, 925, 927, 915, 923, 917, 921, 927],
       [915, 949, 957, 953, 954, 972, 32, 925, 959, 963, 959, 954, 959, 956, 949, 943, 959,
       32, 913, 952, 951, 957, 974, 957, 32, 171, 931, 953, 963, 956, 945, 957, 972, 947,
       955, 949, 953, 959, 187]),
      \<comment> \<open>line 42: PAMMAKARISTOS\<close>
      ([928, 913, 924, 924, 913, 922, 913, 929, 921, 931, 932, 927, 931],
       [915, 949, 957, 953, 954, 972, 32, 925, 959, 963, 959, 954, 959, 956, 949, 943, 959,
       32, 913, 952, 951, 957, 974, 957, 32, 171, 928, 945, 956, 956, 945, 954, 940, 961,
       953, 963, 964, 959, 962, 187]),
      \<comment> \<open>line 43: ATTIKON\<close>
      ([913, 932, 932, 921, 922, 927, 925],
       [928, 945, 957, 949, 960, 953, 963, 964, 951, 956, 953, 945, 954, 972, 32, 915, 949,
       957, 953, 954, 972, 32, 925, 959, 963, 959, 954, 959, 956, 949, 943, 959, 32, 171,
       913, 964, 964, 953, 954, 972, 957, 187]),
      \<comment> \<open>line 44: KAT\<close>
      ([922, 913, 932],
       [915, 949, 957, 953, 954, 972, 32, 925, 959, 963, 959, 954, 959, 956, 949, 943, 959,
       32, 913, 952, 951, 957, 974, 957, 32, 171, 922, 913, 932, 187]),
      \<comment> \<open>line 45: ASKLIPIEIO\<close>
      ([913, 931, 922, 923, 919, 928, 921, 917, 921, 927],
       [915, 949, 957, 953, 954, 972, 32, 925, 959, 963, 959, 954, 959, 956, 949, 943, 959,
       32, 171, 913, 963, 954, 955, 951, 960, 953, 949, 943, 959, 187, 32, 914, 959, 973,
       955, 945, 962]),
      \<comment> \<open>line 46: KON/POYLEIO\<close>
      ([922, 937, 925, 47, 928, 927, 933, 923, 917, 921, 927],
       [915, 949, 957, 953, 954, 972, 32, 925, 959, 963, 959, 954, 959, 956, 949, 943, 959,
       32, 925, 941, 945, 962, 32, 921, 969, 957, 943, 945, 962, 32, 171, 922, 969, 957, 963,
       964, 945, 957, 964, 959, 960, 959, 973, 955, 949, 953, 959, 187]),
      \<comment> \<open>line 47: PEIRAIAS\<close>
      ([928, 917, 921, 929, 913, 921, 913, 931],
       [915, 949, 957, 953, 954, 972, 32, 925, 959, 963, 959, 954, 959, 956, 949, 943, 959,
       32, 928, 949, 953, 961, 945, 953, 974, 962, 32, 171, 932, 950, 940, 957, 949, 953,
       959, 187]),
      \<comment> \<open>line 48: ALEXANDRA\<close>
      ([913, 923, 917, 926, 913, 925, 916, 929, 913],
       [915, 949, 957, 953, 954, 972, 32, 925, 959, 963, 959, 954, 959, 956, 949, 943, 959,
       32, 913, 952, 951, 957, 974, 957, 32, 171, 913, 955, 949, 958, 940, 957, 948, 961,
       945, 187]),
      \<comment> \<open>line 49: ARETAIEIO\<close>
      ([913, 929, 917, 932, 913, 921, 917, 921, 927],
       [915, 949, 957, 953, 954, 972, 32, 925, 959, 963, 959, 954, 959, 956, 949, 943, 959,
       32, 913, 952, 951, 957, 974, 957, 32, 171, 913, 961, 949, 964, 945, 943, 949, 953,
       959, 187]),
      \<comment> \<open>line 50: EL. VENIZELOY\<close>
      ([917, 923, 46, 32, 914, 917, 925, 921, 918, 917, 923, 927, 933],
       [915, 949, 957, 953, 954, 972, 32, 924, 945, 953, 949, 965, 964, 953, 954, 972, 32,
       171, 917, 955, 941, 957, 945, 32, 914, 949, 957, 953, 950, 941, 955, 959, 965, 187]),
      \<comment> \<open>line 51: PENTELIS\<close>
      ([928, 917, 925, 932, 917, 923, 919, 931],
       [915, 949, 957, 953, 954, 972, 32, 925, 959, 963, 959, 954, 959, 956, 949, 943, 959,
       32, 928, 945, 943, 948, 969, 957, 32, 171, 928, 949, 957, 964, 941, 955, 951, 962,
       187]),
      \<comment> \<open>line 52: AGL. KYRIAKOY\<close>
      ([913, 915, 923, 46, 32, 922, 933, 929, 921, 913, 922, 927, 933],
       [915, 949, 957, 953, 954, 972, 32, 925, 959, 963, 959, 954, 959, 956, 949, 943, 959,
       32, 928, 945, 943, 948, 969, 957, 32, 913, 964, 964, 953, 954, 942, 962, 32, 171, 913,
       947, 955, 945, 912, 945, 32, 922, 965, 961, 953, 945, 954, 959, 973, 187]),
      \<comment> \<open>line 53: SOTIRIA\<close>
      ([931, 937, 932, 919, 929, 921, 913],
       [925, 959, 963, 959, 954, 959, 956, 949, 943, 959, 32, 920, 974, 961, 945, 954, 959,
       962, 32, 913, 952, 951, 957, 974, 957, 32, 171, 931, 969, 964, 951, 961, 943, 945,
       187]),
      \<comment> \<open>line 54: IPPOKRATEIO\<close>
      ([921, 928, 928, 927, 922, 929, 913, 932, 917, 921, 927],
       [915, 949, 957, 953, 954, 972, 32, 925, 959, 963, 959, 954, 959, 956, 949, 943, 959,
       32, 913, 952, 951, 957, 974, 957, 32, 171, 921, 960, 960, 959, 954, 961, 940, 964,
       949, 953, 959, 187]),
      \<comment> \<open>line 55: DROMOKAITEIO\<close>
      ([916, 929, 927, 924, 927, 922, 913, 938, 932, 917, 921, 927],
       [936, 965, 967, 953, 945, 964, 961, 953, 954, 972, 32, 925, 959, 963, 959, 954, 959,
       956, 949, 943, 959, 32, 913, 964, 964, 953, 954, 942, 962, 32, 171, 916, 961, 959,
       956, 959, 954, 945, 912, 964, 949, 953, 959, 187]),
      \<comment> \<open>line 56: A. SYGGROS\<close>
      ([913, 46, 32, 931, 933, 915, 915, 929, 927, 931],
       [925, 959, 963, 951, 955, 949, 965, 964, 953, 954, 972, 32, 916, 949, 961, 956, 945,
       964, 959, 955, 959, 947, 953, 954, 972, 32, 925, 959, 963, 959, 954, 959, 956, 949,
       943, 959, 32, 913, 952, 951, 957, 974, 957, 32, 171, 913, 957, 948, 961, 941, 945,
       962, 32, 931, 965, 947, 947, 961, 972, 962, 187]),
      \<comment> \<open>line 57: OFTHALMIATREIO\<close>
      ([927, 934, 920, 913, 923, 924, 921, 913, 932, 929, 917, 921, 927],
       [925, 959, 963, 951, 955, 949, 965, 964, 953, 954, 972, 32, 927, 966, 952, 945, 955,
       956, 953, 945, 964, 961, 949, 943, 959, 32, 913, 952, 951, 957, 974, 957]),
      \<comment> \<open>line 58: AG. SAVVAS\<close>
      ([913, 915, 46, 32, 931, 913, 914, 914, 913, 931],
       [913, 957, 964, 953, 954, 945, 961, 954, 953, 957, 953, 954, 972, 45, 927, 947, 954,
       959, 955, 959, 947, 953, 954, 972, 32, 925, 959, 963, 959, 954, 959, 956, 949, 943,
       959, 32, 913, 952, 951, 957, 974, 957, 32, 171, 902, 947, 953, 959, 962, 32, 931, 940,
       946, 946, 945, 962, 187]),
      \<comment> \<open>line 59: G. GENNIMATAS\<close>
      ([915, 46, 32, 915, 917, 925, 925, 919, 924, 913, 932, 913, 931],
       [915, 949, 957, 953, 954, 972, 32, 925, 959, 963, 959, 954, 959, 956, 949, 943, 959,
       32, 913, 952, 951, 957, 974, 957, 32, 171, 915, 949, 974, 961, 947, 953, 959, 962, 32,
       915, 949, 957, 957, 951, 956, 945, 964, 940, 962, 187]),
      \<comment> \<open>line 60: KORG. MPEN. EES\<close>
      ([922, 927, 929, 915, 46, 32, 924, 928, 917, 925, 46, 32, 917, 917, 931],
       [915, 949, 957, 953, 954, 972, 32, 925, 959, 963, 959, 954, 959, 956, 949, 943, 959,
       32, 913, 952, 951, 957, 974, 957, 32, 171, 922, 959, 961, 947, 953, 945, 955, 941,
       957, 949, 953, 959, 45, 924, 960, 949, 957, 940, 954, 949, 953, 959, 32, 917, 46, 917,
       46, 931, 46, 187])
     ]"

text \<open>The dictionary \<open>SPECIALTY_NAMES\<close> (raw label to bilingual label).\<close>

definition SPECIALTY_NAMES :: "(ustring \<times> ustring) list" where
  "SPECIALTY_NAMES =
     [
      \<comment> \<open>line 65: Pathologiki\<close>
      ([928, 945, 952, 959, 955, 959, 947, 953, 954, 942],
       [928, 945, 952, 959, 955, 959, 947, 943, 945, 32, 47, 32, 73, 110, 116, 101, 114, 110,
       97, 108, 32, 77, 101, 100, 105, 99, 105, 110, 101]),
      \<comment> \<open>line 66: Kardiologiki\<close>
      ([922, 945, 961, 948, 953, 959, 955, 959, 947, 953, 954, 942],
       [922, 945, 961, 948, 953, 959, 955, 959, 947, 943, 945, 32, 47, 32, 67, 97, 114, 100,
       105, 111, 108, 111, 103, 121]),
      \<comment> \<open>line 67: CHeiroyrgiki\<close>
      ([935, 949, 953, 961, 959, 965, 961, 947, 953, 954, 942],
       [935, 949, 953, 961, 959, 965, 961, 947, 953, 954, 942, 32, 47, 32, 83, 117, 114, 103,
       101, 114, 121]),
      \<comment> \<open>line 68: Aggeiocheir/ki\<close>
      ([913, 947, 947, 949, 953, 959, 967, 949, 953, 961, 47, 954, 942],
       [913, 947, 947, 949, 953, 959, 967, 949, 953, 961, 959, 965, 961, 947, 953, 954, 942,
       32, 47, 32, 86, 97, 115, 99, 117, 108, 97, 114, 32, 83, 117, 114, 103, 101, 114, 121]),
      \<comment> \<open>line 69: Aimatologiki\<close>
      ([913, 953, 956, 945, 964, 959, 955, 959, 947, 953, 954, 942],
       [913, 953, 956, 945, 964, 959, 955, 959, 947, 943, 945, 32, 47, 32, 72, 101, 109, 97,
       116, 111, 108, 111, 103, 121]),
      \<comment> \<open>line 70: Gastrenter/giki\<close>
      ([915, 945, 963, 964, 961, 949, 957, 964, 949, 961, 47, 947, 953, 954, 942],
       [915, 945, 963, 964, 961, 949, 957, 964, 949, 961, 959, 955, 959, 947, 943, 945, 32,
       47, 32, 71, 97, 115, 116, 114, 111, 101, 110, 116, 101, 114, 111, 108, 111, 103, 121]),
      \<comment> \<open>line 71: Gnathocheiroyrgiki\<close>
      ([915, 957, 945, 952, 959, 967, 949, 953, 961, 959, 965, 961, 947, 953, 954, 942],
       [915, 957, 945, 952, 959, 967, 949, 953, 961, 959, 965, 961, 947, 953, 954, 942, 32,
       47, 32, 77, 97, 120, 105, 108, 108, 111, 102, 97, 99, 105, 97, 108, 32, 83, 117, 114,
       103, 101, 114, 121]),
      \<comment> \<open>line 72: Dermatologiki\<close>
      ([916, 949, 961, 956, 945, 964, 959, 955, 959, 947, 953, 954, 942],
       [916, 949, 961, 956, 945, 964, 959, 955, 959, 947, 943, 945, 32, 47, 32, 68, 101, 114,
       109, 97, 116, 111, 108, 111, 103, 121]),
      \<comment> \<open>line 73: Endokrinologiki\<close>
      ([917, 957, 948, 959, 954, 961, 953, 957, 959, 955, 959, 947, 953, 954, 942],
       [917, 957, 948, 959, 954, 961, 953, 957, 959, 955, 959, 947, 943, 945, 32, 47, 32, 69,
       110, 100, 111, 99, 114, 105, 110, 111, 108, 111, 103, 121]),
      \<comment> \<open>line 74: THorakocheir/giki\<close>
      ([920, 969, 961, 945, 954, 959, 967, 949, 953, 961, 47, 947, 953, 954, 942],
       [920, 969, 961, 945, 954, 959, 967, 949, 953, 961, 959, 965, 961, 947, 953, 954, 942,
       32, 47, 32, 84, 104, 111, 114, 97, 99, 105, 99, 32, 83, 117, 114, 103, 101, 114, 121]),
      \<comment> \<open>line 75: Kardiocheir/ki\<close>
      ([922, 945, 961, 948, 953, 959, 967, 949, 953, 961, 47, 954, 942],
       [922, 945, 961, 948, 953, 959, 967, 949, 953, 961, 959, 965, 961, 947, 953, 954, 942,
       32, 47, 32, 67, 97, 114, 100, 105, 97, 99, 32, 83, 117, 114, 103, 101, 114, 121]),
      \<comment> \<open>line 76: Neyrologiki\<close>
      ([925, 949, 965, 961, 959, 955, 959, 947, 953, 954, 942],
       [925, 949, 965, 961, 959, 955, 959, 947, 943, 945, 32, 47, 32, 78, 101, 117, 114, 111,
       108, 111, 103, 121]),
      \<comment> \<open>line 77: Neyrocheiroyrgiki\<close>
      ([925, 949, 965, 961, 959, 967, 949, 953, 961, 959, 965, 961, 947, 953, 954, 942],
       [925, 949, 965, 961, 959, 967, 949, 953, 961, 959, 965, 961, 947, 953, 954, 942, 32,
       47, 32, 78, 101, 117, 114, 111, 115, 117, 114, 103, 101, 114, 121]),
      \<comment> \<open>line 78: Nefrologiki\<close>
      ([925, 949, 966, 961, 959, 955, 959, 947, 953, 954, 942],
       [925, 949, 966, 961, 959, 955, 959, 947, 943, 945, 32, 47, 32, 78, 101, 112, 104, 114,
       111, 108, 111, 103, 121]),
      \<comment> \<open>line 79: Ogkologiki\<close>
      ([927, 947, 954, 959, 955, 959, 947, 953, 954, 942],
       [927, 947, 954, 959, 955, 959, 947, 943, 945, 32, 47, 32, 79, 110, 99, 111, 108, 111,
       103, 121]),
      \<comment> \<open>line 80: Odontiatriki\<close>
      ([927, 948, 959, 957, 964, 953, 945, 964, 961, 953, 954, 942],
       [927, 948, 959, 957, 964, 953, 945, 964, 961, 953, 954, 942, 32, 47, 32, 68, 101, 110,
       116, 105, 115, 116, 114, 121]),
      \<comment> \<open>line 81: Orthopaidiki\<close>
      ([927, 961, 952, 959, 960, 945, 953, 948, 953, 954, 942],
       [927, 961, 952, 959, 960, 949, 948, 953, 954, 942, 32, 47, 32, 79, 114, 116, 104, 111,
       112, 101, 100, 105, 99, 115]),
      \<comment> \<open>line 82: Oyrologiki\<close>
      ([927, 965, 961, 959, 955, 959, 947, 953, 954, 942],
       [927, 965, 961, 959, 955, 959, 947, 943, 945, 32, 47, 32, 85, 114, 111, 108, 111, 103,
       121]),
      \<comment> \<open>line 83: Ofthalmologiki\<close>
      ([927, 966, 952, 945, 955, 956, 959, 955, 959, 947, 953, 954, 942],
       [927, 966, 952, 945, 955, 956, 959, 955, 959, 947, 943, 945, 32, 47, 32, 79, 112, 104,
       116, 104, 97, 108, 109, 111, 108, 111, 103, 121]),
      \<comment> \<open>line 84: Pneymonologiki\<close>
      ([928, 957, 949, 965, 956, 959, 957, 959, 955, 959, 947, 953, 954, 942],
       [928, 957, 949, 965, 956, 959, 957, 959, 955, 959, 947, 943, 945, 32, 47, 32, 80, 117,
       108, 109, 111, 110, 111, 108, 111, 103, 121]),
      \<comment> \<open>line 85: Plast. CHeiroyrgiki\<close>
      ([928, 955, 945, 963, 964, 46, 32, 935, 949, 953, 961, 959, 965, 961, 947, 953, 954,
       942],
       [928, 955, 945, 963, 964, 953, 954, 942, 32, 935, 949, 953, 961, 959, 965, 961, 947,
       953, 954, 942, 32, 47, 32, 80, 108, 97, 115, 116, 105, 99, 32, 83, 117, 114, 103, 101,
       114, 121]),
      \<comment> \<open>line 86: Reymatologiki\<close>
      ([929, 949, 965, 956, 945, 964, 959, 955, 959, 947, 953, 954, 942],
       [929, 949, 965, 956, 945, 964, 959, 955, 959, 947, 943, 945, 32, 47, 32, 82, 104, 101,
       117, 109, 97, 116, 111, 108, 111, 103, 121]),
      \<comment> \<open>line 87: PSychiatriki\<close>
      ([936, 965, 967, 953, 945, 964, 961, 953, 954, 942],
       [936, 965, 967, 953, 945, 964, 961, 953, 954, 942, 32, 47, 32, 80, 115, 121, 99, 104,
       105, 97, 116, 114, 121]),
      \<comment> \<open>line 88: O.R.L.\<close>
      ([937, 46, 929, 46, 923, 46],
       [937, 964, 959, 961, 953, 957, 959, 955, 945, 961, 965, 947, 947, 959, 955, 959, 947,
       943, 945, 32, 47, 32, 69, 78, 84]),
      \<comment> \<open>line 89: Gynaikologiki\<close>
      ([915, 965, 957, 945, 953, 954, 959, 955, 959, 947, 953, 954, 942],
       [915, 965, 957, 945, 953, 954, 959, 955, 959, 947, 943, 945, 32, 47, 32, 71, 121, 110,
       101, 99, 111, 108, 111, 103, 121]),
      \<comment> \<open>line 90: Maieytiki\<close>
      ([924, 945, 953, 949, 965, 964, 953, 954, 942],
       [924, 945, 953, 949, 965, 964, 953, 954, 942, 32, 47, 32, 79, 98, 115, 116, 101, 116,
       114, 105, 99, 115]),
      \<comment> \<open>line 91: Paidiatriko\<close>
      ([928, 945, 953, 948, 953, 945, 964, 961, 953, 954, 972],
       [928, 945, 953, 948, 953, 945, 964, 961, 953, 954, 942, 32, 47, 32, 80, 101, 100, 105,
       97, 116, 114, 105, 99, 115]),
      \<comment> \<open>line 92: Paidopsychiatriki\<close>
      ([928, 945, 953, 948, 959, 968, 965, 967, 953, 945, 964, 961, 953, 954, 942],
       [928, 945, 953, 948, 959, 968, 965, 967, 953, 945, 964, 961, 953, 954, 942, 32, 47,
       32, 67, 104, 105, 108, 100, 32, 80, 115, 121, 99, 104, 105, 97, 116, 114, 121])
     ]"

text \<open>
  The string constants of the tokenizer: \<open>GN\<close> is the prefix token (capital gamma,
  full stop, capital nu, full stop), \<open>PGN\<close> the same after capital pi and a full stop,
  and \<open>G\<close>, \<open>P\<close>, \<open>N\<close> are the three prefix letters, each with its full stop.
\<close>

definition GN :: ustring where "GN = [915, 46, 925, 46]"
definition PGN :: ustring where "PGN = [928, 46, 915, 46, 925, 46]"
definition G_dot :: ustring where "G_dot = [915, 46]"
definition P_dot :: ustring where "P_dot = [928, 46]"
definition N_dot :: ustring where "N_dot = [925, 46]"

text \<open>
  \<open>re.split(r'\n|G\.N\.', text)\<close> (with the Greek letters of \<open>GN\<close>): the text is cut
  at every line feed and at every occurrence of the prefix token, scanning from the left;
  the separators are dropped and empty pieces are kept. The two alternatives never match at
  the same place, so their order does not matter. (As for \<open>py_split\<close>, the first
  branch of the inner \<open>case\<close> never arises.)
\<close>

fun re_split :: "ustring \<Rightarrow> ustring list" where
  "re_split [] = [[]]"
| "re_split (c # cs) =
     (if c = 10 then [] # re_split cs
      else if starts_with (c # cs) GN then [] # re_split (drop 3 cs)
      else (case re_split cs of
              [] \<Rightarrow> [[c]]
            | f # fs \<Rightarrow> (c # f) # fs))"

text \<open>
  The \<open>for ... else\<close> over \<open>HOSPITAL_NAMES.items()\<close>: the full name of the first
  abbreviation that the line contains, or \<open>None\<close> when the loop ends without a
  \<open>break\<close>.
\<close>

fun match_abbr :: "(ustring \<times> ustring) list \<Rightarrow> ustring \<Rightarrow> ustring option" where
  "match_abbr [] line = None"
| "match_abbr ((abbr, full_name) # rest) line =
     (if py_in abbr line then Some full_name else match_abbr rest line)"

text \<open>
  The line as it is matched: the prefix token is put in front of a piece that starts
  with none of the three prefix letters.
\<close>

definition with_prefix :: "ustring \<Rightarrow> ustring" where
  "with_prefix line =
     (if \<not> starts_with line G_dot \<and> \<not> starts_with line P_dot \<and> \<not> starts_with line N_dot
      then GN @ line else line)"

definition looks_like_hospital :: "ustring \<Rightarrow> bool" where
  "looks_like_hospital line \<longleftrightarrow> py_in GN line \<or> py_in PGN line \<or> py_in N_dot line"

text \<open>
  \<open>_extract_hospital_names\<close>: the loop over the pieces, with the list
  \<open>hospital_names\<close> it appends to, then the function.
\<close>

fun names_loop :: "ustring list \<Rightarrow> ustring list \<Rightarrow> ustring list" where
  "names_loop hospital_names [] = hospital_names"
| "names_loop hospital_names (l # lines) =
     (let line = py_strip l in
      if line = [] then names_loop hospital_names lines
      else
        (let line = with_prefix line in
         case match_abbr HOSPITAL_NAMES line of
           Some full_name \<Rightarrow> names_loop (hospital_names @ [full_name]) lines
         | None \<Rightarrow>
             if looks_like_hospital line then names_loop (hospital_names @ [line]) lines
             else names_loop hospital_names lines))"

definition extract_hospital_names :: "ustring \<Rightarrow> ustring list" where
  "extract_hospital_names text =
     (if text = [] \<or> py_strip text = [] then [] else names_loop [] (re_split text))"

text \<open>
  What \<open>pdfplumber\<close> extracts. A cell is a text or \<open>None\<close>, a row a list of cells,
  a table a list of rows. A page is the list of its tables, or \<open>None\<close> when
  \<open>extract_tables\<close> raises; the document is the list of its pages, or \<open>None\<close> when
  it cannot be opened.
\<close>

type_synonym pdf_row = "ustring option list"
type_synonym pdf_table = "pdf_row list"
type_synonym pdf = "pdf_table list option list option"

text \<open>
  The header marker, and the test \<open>row and marker in str(row)\<close>. \<open>str(row)\<close> is the
  \<open>repr\<close> of the list: the texts of the cells, quoted and escaped, between commas. The
  marker is made of Greek letters only, which \<open>repr\<close> leaves as they are and which the
  quotes, the commas, the escapes and the word \<open>None\<close> do not contain: it occurs in
  \<open>str(row)\<close> exactly when it occurs in a cell.
\<close>

definition header_marker :: ustring where
  "header_marker = [922, 955, 953, 957, 953, 954, 941, 962]"

definition is_header_row :: "pdf_row \<Rightarrow> bool" where
  "is_header_row row \<longleftrightarrow>
     row \<noteq> [] \<and> list_ex (\<lambda>cell. case cell of None \<Rightarrow> False | Some t \<Rightarrow> py_in header_marker t) row"

text \<open>The search for the header among the first five rows: the index of the first.\<close>

fun find_header :: "nat \<Rightarrow> pdf_row list \<Rightarrow> nat option" where
  "find_header i [] = None"
| "find_header i (row # rows) = (if is_header_row row then Some i else find_header (Suc i) rows)"

text \<open>The fixed table of the time slots and their columns.\<close>

definition time_slots :: "(ustring \<times> nat) list" where
  "time_slots =
     [(u ''08:00-14:30'', 1),
      (u ''08:00-16:00'', 2),
      (u ''08:00-23:00'', 3),
      (u ''14:30-08:00 '' @ [949, 960, 959, 956, 941, 957, 951, 962], 4),
      (u ''08:00-08:00 '' @ [949, 960, 959, 956, 941, 957, 951, 962], 5)]"

text \<open>
  \<open>parse_pdf\<close>, from the inside: the loop over the time slots of one row, the body of
  the loop over the rows, the body of the loop over the tables, the loop over the pages.
  Each takes the list \<open>hospitals\<close> assembled so far and returns it extended.
\<close>

fun slots_loop ::
  "Hospital list \<Rightarrow> pdf_row \<Rightarrow> ustring \<Rightarrow> ustring \<Rightarrow> (ustring \<times> nat) list \<Rightarrow> Hospital list" where
  "slots_loop hospitals row specialty_display duty_date [] = hospitals"
| "slots_loop hospitals row specialty_display duty_date ((time_label, col_idx) # rest) =
     (if col_idx < length row then
        (case row ! col_idx of
           None \<Rightarrow> slots_loop hospitals row specialty_display duty_date rest
         | Some cell_text \<Rightarrow>
             if cell_text \<noteq> [] then
               slots_loop
                 (hospitals @
                    map (\<lambda>hosp_name. new_hospital hosp_name specialty_display time_label duty_date)
                      (extract_hospital_names cell_text))
                 row specialty_display duty_date rest
             else slots_loop hospitals row specialty_display duty_date rest)
      else slots_loop hospitals row specialty_display duty_date rest)"

definition specialty_of :: "pdf_row \<Rightarrow> ustring" where
  "specialty_of row = (case row ! 0 of None \<Rightarrow> [] | Some t \<Rightarrow> if t \<noteq> [] then py_strip t else [])"

definition pdf_row :: "Hospital list \<Rightarrow> pdf_row \<Rightarrow> ustring \<Rightarrow> Hospital list" where
  "pdf_row hospitals row duty_date =
     (if row = [] \<or> length row < 2 then hospitals
      else
        (let specialty = specialty_of row in
         if specialty = [] \<or> specialty = header_marker then hospitals
         else
           (let specialty_display =
                  (case map_of SPECIALTY_NAMES specialty of
                     None \<Rightarrow> specialty
                   | Some display \<Rightarrow> display)
            in slots_loop hospitals row specialty_display duty_date time_slots)))"

fun rows_loop :: "Hospital list \<Rightarrow> pdf_row list \<Rightarrow> ustring \<Rightarrow> Hospital list" where
  "rows_loop hospitals [] duty_date = hospitals"
| "rows_loop hospitals (row # rows) duty_date =
     rows_loop (pdf_row hospitals row duty_date) rows duty_date"

definition pdf_table :: "Hospital list \<Rightarrow> pdf_table \<Rightarrow> ustring \<Rightarrow> Hospital list" where
  "pdf_table hospitals table duty_date =
     (if table = [] \<or> length table < 2 then hospitals
      else
        (case find_header 0 (take 5 table) of
           None \<Rightarrow> hospitals
         | Some header_row \<Rightarrow> rows_loop hospitals (drop (header_row + 1) table) duty_date))"

fun tables_loop :: "Hospital list \<Rightarrow> pdf_table list \<Rightarrow> ustring \<Rightarrow> Hospital list" where
  "tables_loop hospitals [] duty_date = hospitals"
| "tables_loop hospitals (table # tbls) duty_date =
     tables_loop (pdf_table hospitals table duty_date) tbls duty_date"

text \<open>
  A page whose extraction raises ends the loop: the \<open>except\<close> clause prints the error,
  and the function returns the records assembled so far.
\<close>

fun pages_loop :: "Hospital list \<Rightarrow> pdf_table list option list \<Rightarrow> ustring \<Rightarrow> Hospital list" where
  "pages_loop hospitals [] duty_date = hospitals"
| "pages_loop hospitals (None # pages) duty_date = hospitals"
| "pages_loop hospitals (Some page_tables # pages) duty_date =
     pages_loop (tables_loop hospitals page_tables duty_date) pages duty_date"

definition parse_pdf :: "pdf \<Rightarrow> ustring \<Rightarrow> Hospital list" where
  "parse_pdf document duty_date =
     (case document of
        None \<Rightarrow> []
      | Some pages \<Rightarrow> pages_loop [] pages duty_date)"

text \<open>
  \<open>parse_doc\<close>: the legacy format is only detected; every path returns the empty list
  the function starts with.
\<close>

definition parse_doc :: "nat list \<Rightarrow> ustring \<Rightarrow> Hospital list" where
  "parse_doc doc_content duty_date = []"

text \<open>
  \<open>get_schedule_for_date\<close>. A \<open>datetime.date\<close> is its year, month and day.
  \<open>greek_months\<close> is the dictionary of the genitive month names; reading a key that is
  not in it is a \<open>KeyError\<close>. \<open>isoformat\<close> pads the year to four digits and the month
  and the day to two.
\<close>

record pydate =
  date_year :: int
  date_month :: int
  date_day :: int

datatype py_error = KeyError

definition greek_months :: "(int \<times> ustring) list" where
  "greek_months =
     [
      \<comment> \<open>line 282: IANOYARIOY\<close>
      (1, [921, 913, 925, 927, 933, 913, 929, 921, 927, 933]),
      \<comment> \<open>line 282: FEVROYARIOY\<close>
      (2, [934, 917, 914, 929, 927, 933, 913, 929, 921, 927, 933]),
      \<comment> \<open>line 282: MARTIOY\<close>
      (3, [924, 913, 929, 932, 921, 927, 933]),
      \<comment> \<open>line 283: APRILIOY\<close>
      (4, [913, 928, 929, 921, 923, 921, 927, 933]),
      \<comment> \<open>line 283: MAIOY\<close>
      (5, [924, 913, 938, 927, 933]),
      \<comment> \<open>line 283: IOYNIOY\<close>
      (6, [921, 927, 933, 925, 921, 927, 933]),
      \<comment> \<open>line 284: IOYLIOY\<close>
      (7, [921, 927, 933, 923, 921, 927, 933]),
      \<comment> \<open>line 284: AYGOYSTOY\<close>
      (8, [913, 933, 915, 927, 933, 931, 932, 927, 933]),
      \<comment> \<open>line 284: SEPTEMVRIOY\<close>
      (9, [931, 917, 928, 932, 917, 924, 914, 929, 921, 927, 933]),
      \<comment> \<open>line 285: OKTOVRIOY\<close>
      (10, [927, 922, 932, 937, 914, 929, 921, 927, 933]),
      \<comment> \<open>line 285: NOEMVRIOY\<close>
      (11, [925, 927, 917, 924, 914, 929, 921, 927, 933]),
      \<comment> \<open>line 285: DEKEMVRIOY\<close>
      (12, [916, 917, 922, 917, 924, 914, 929, 921, 927, 933])
     ]"

definition zero_pad :: "nat \<Rightarrow> ustring \<Rightarrow> ustring" where
  "zero_pad n s = replicate (n - length s) 48 @ s"

definition isoformat :: "pydate \<Rightarrow> ustring" where
  "isoformat d =
     zero_pad 4 (py_str (date_year d)) @ u ''-'' @ zero_pad 2 (py_str (date_month d)) @
     u ''-'' @ zero_pad 2 (py_str (date_day d))"

text \<open>
  The label looked for in the file names: the day, the month name and the year, each
  separated by one space.
\<close>

definition date_label :: "pydate \<Rightarrow> ustring \<Rightarrow> ustring" where
  "date_label d month = py_str (date_day d) @ u '' '' @ month @ u '' '' @ py_str (date_year d)"

text \<open>
  The loop that looks for the first file whose text contains the label: the pair of its
  \<open>fdl\<close> number and its type.
\<close>

fun find_file :: "ustring \<Rightarrow> (ustring \<times> ustring \<times> ustring) list \<Rightarrow> (ustring \<times> ustring) option" where
  "find_file date_str [] = None"
| "find_file date_str ((file_text, fdl, file_type) # files) =
     (if py_in date_str file_text then Some (fdl, file_type) else find_file date_str files)"

text \<open>
  The three calls that leave the program are parameters: \<open>files\<close> is the list that
  \<open>get_available_files\<close> returns (the empty list when the request fails),
  \<open>download fdl\<close> is the content that \<open>download_file\<close> returns (\<open>None\<close> when the
  request fails), and \<open>read_pdf\<close> is what \<open>pdfplumber\<close> extracts from a content.
\<close>

definition get_schedule_for_date ::
  "(ustring \<times> ustring \<times> ustring) list \<Rightarrow> (ustring \<Rightarrow> nat list option) \<Rightarrow> (nat list \<Rightarrow> pdf)
     \<Rightarrow> pydate \<Rightarrow> py_error + Hospital list" where
  "get_schedule_for_date files download read_pdf target_date =
     (case map_of greek_months (date_month target_date) of
        None \<Rightarrow> Inl KeyError
      | Some month \<Rightarrow>
          (case find_file (date_label target_date month) files of
             None \<Rightarrow> Inr []
           | Some (fdl, file_type) \<Rightarrow>
               (case download fdl of
                  None \<Rightarrow> Inr []
                | Some content \<Rightarrow>
                    if content = [] then Inr []
                    else if file_type = u ''pdf''
                    then Inr (parse_pdf (read_pdf content) (isoformat target_date))
                    else Inr (parse_doc content (isoformat target_date)))))"

text \<open>
  The texts of the scenario row: the raw label of the cardiology clinic, the two
  placeholder institutions (capital nu, omicron, sigma, a full stop, a space, then
  capital alpha or beta) and the bilingual cardiology label.
\<close>

definition cardiology_raw :: ustring where
  "cardiology_raw = [922, 945, 961, 948, 953, 959, 955, 959, 947, 953, 954, 942]"

definition cardiology_display :: ustring where
  "cardiology_display =
     [922, 945, 961, 948, 953, 959, 955, 959, 947, 943, 945] @ u '' / Cardiology''"

definition nos_A :: ustring where "nos_A = [925, 927, 931, 46, 32, 913]"
definition nos_B :: ustring where "nos_B = [925, 927, 931, 46, 32, 914]"

definition scenario_row :: pdf_row where
  "scenario_row = [Some cardiology_raw, Some [], Some nos_A, Some [], Some [], Some nos_B]"

text \<open>
  A document of one page and one table: the header row, then a cardiology row whose
  first slot cell names the same institution (by its abbreviation, kappa alpha tau) on
  two lines.
\<close>

definition KAT :: ustring where "KAT = [922, 913, 932]"

definition repeated_pdf :: pdf where
  "repeated_pdf =
     Some [Some [[[Some header_marker, Some (u ''08:00-14:30'')],
                  [Some cardiology_raw, Some (KAT @ [10] @ KAT)]]]]"

definition record_key :: "Hospital \<Rightarrow> ustring \<times> ustring \<times> ustring \<times> ustring" where
  "record_key h = (name h, specialty h, time_slot h, on_duty_date h)"







text \<open>
  The records of a document, stated from the tables: the records of one slot cell of a
  row, of a row, of the rows below the header of a table, and the tables of the pages
  that could be read.
\<close>

definition slot_records ::
  "pdf_row \<Rightarrow> ustring \<Rightarrow> ustring \<Rightarrow> ustring \<times> nat \<Rightarrow> Hospital list" where
  "slot_records row display duty_date slot =
     (if snd slot < length row then
        (case row ! snd slot of
           None \<Rightarrow> []
         | Some cell_text \<Rightarrow>
             map (\<lambda>hosp_name. new_hospital hosp_name display (fst slot) duty_date)
               (extract_hospital_names cell_text))
      else [])"

definition display_of :: "pdf_row \<Rightarrow> ustring" where
  "display_of row =
     (case map_of SPECIALTY_NAMES (specialty_of row) of
        None \<Rightarrow> specialty_of row
      | Some display \<Rightarrow> display)"

definition is_data_row :: "pdf_row \<Rightarrow> bool" where
  "is_data_row row \<longleftrightarrow>
     2 \<le> length row \<and> specialty_of row \<noteq> [] \<and> specialty_of row \<noteq> header_marker"

definition row_records :: "pdf_row \<Rightarrow> ustring \<Rightarrow> Hospital list" where
  "row_records row duty_date =
     (if is_data_row row
      then concat (map (slot_records row (display_of row) duty_date) time_slots)
      else [])"

definition rows_below_header :: "pdf_table \<Rightarrow> pdf_row list" where
  "rows_below_header table =
     (if length table < 2 then []
      else (case find_header 0 (take 5 table) of
              None \<Rightarrow> []
            | Some header_row \<Rightarrow> drop (header_row + 1) table))"

definition table_records :: "pdf_table \<Rightarrow> ustring \<Rightarrow> Hospital list" where
  "table_records table duty_date =
     concat (map (\<lambda>row. row_records row duty_date) (rows_below_header table))"

fun readable_tables :: "pdf_table list option list \<Rightarrow> pdf_table list" where
  "readable_tables [] = []"
| "readable_tables (None # pages) = []"
| "readable_tables (Some page_tables # pages) = page_tables @ readable_tables pages"

text \<open>
  Sample inputs: two mentions (the prefix token, a space and kappa alpha tau; the
  abbreviation lambda alpha iota-with-dialytika kappa omicron), a cell that starts with
  the university prefix (pi, full stop, then the prefix token) before the abbreviation
  of the Attikon hospital, a date, and a listing of one file for the day before it.
\<close>

definition LAIKO :: ustring where "LAIKO = [923, 913, 938, 922, 927]"

definition ATTIKON :: ustring where "ATTIKON = [913, 932, 932, 921, 922, 927, 925]"



definition sample_date :: pydate where
  "sample_date = \<lparr>date_year = 2025, date_month = 10, date_day = 14\<rparr>"

definition sample_files :: "(ustring \<times> ustring \<times> ustring) list" where
  "sample_files =
     [(u ''13 '' @ [927, 922, 932, 937, 914, 929, 921, 927, 933] @ u '' 2025.pdf'',
       u ''101'', u ''pdf'')]"

lemma attending_row_eq:
  "attending_row st row =
     (case attending_day row of
        None \<Rightarrow> st
      | Some d \<Rightarrow>
          st\<lparr>shifts := AList.update d
             (case map_of (shifts st) d of
                None \<Rightarrow> new_shift d (py_strip (row ! 1)) (py_strip (row ! 2))
                          (attending_names (py_strip (row ! 3)))
              | Some s \<Rightarrow> s\<lparr>attendings := attending_names (py_strip (row ! 3))\<rparr>)
             (shifts st)\<rparr>)"
proof (cases "length row < 4")
  case True
  then show ?thesis by (simp add: attending_row_def attending_day_def)
next
  case False
  then have "row \<noteq> []" by auto
  with False have "map py_strip row ! 0 = py_strip (row ! 0)" "map py_strip row ! 1 = py_strip (row ! 1)"
    "map py_strip row ! 2 = py_strip (row ! 2)" "map py_strip row ! 3 = py_strip (row ! 3)"
    by simp_all
  with False show ?thesis
    by (simp add: attending_row_def attending_day_def Let_def split: option.splits)
qed


lemma attending_row_keys:
  "fst ` set (shifts (attending_row st row)) =
     fst ` set (shifts st) \<union> set_option (attending_day row)"
  by (auto simp: attending_row_eq dom_update split: option.splits)


lemma set_update_subset:
  "set (AList.update k v al) \<subseteq> insert (k, v) (set al)"
  by (induction al) auto

lemma no_surgeons_update:
  assumes "no_surgeons st"
    and "senior_cardiac_surgeon s = None" and "junior_cardiac_surgeon s = None"
  shows "no_surgeons (st\<lparr>shifts := AList.update d s (shifts st)\<rparr>)"
proof -
  have "set (AList.update d s (shifts st)) \<subseteq> insert (d, s) (set (shifts st))"
    by (rule set_update_subset)
  with assms show ?thesis
    unfolding no_surgeons_def by auto
qed

lemma no_surgeons_lookup:
  "no_surgeons st \<Longrightarrow> map_of (shifts st) d = Some s \<Longrightarrow>
   senior_cardiac_surgeon s = None \<and> junior_cardiac_surgeon s = None"
  unfolding no_surgeons_def by (auto dest: map_of_SomeD)

lemma attending_row_no_surgeons:
  "no_surgeons st \<Longrightarrow> no_surgeons (attending_row st row)"
  unfolding attending_row_eq
  by (auto simp: new_shift_def split: option.splits
           intro!: no_surgeons_update dest: no_surgeons_lookup)

lemma attending_table_keys:
  "fst ` set (shifts (parse_attending_table st rows)) =
     fst ` set (shifts st) \<union> days_attending rows"
  by (induction rows arbitrary: st)
     (auto simp: days_attending_def attending_row_keys split: option.splits)


lemma attending_table_no_surgeons:
  "no_surgeons st \<Longrightarrow> no_surgeons (parse_attending_table st rows)"
  by (induction rows arbitrary: st) (auto simp: attending_row_no_surgeons)


lemma resident_row_eq:
  "resident_row st row =
     (case resident_day row of
        None \<Rightarrow> st
      | Some d \<Rightarrow>
          st\<lparr>shifts := AList.update d
             ((case map_of (shifts st) d of
                 None \<Rightarrow> new_shift d (py_strip (row ! 1)) (py_strip (row ! 2)) []
               | Some s \<Rightarrow> s)
                \<lparr>major_shift := cell_opt (map py_strip row) 3,
                 minor_shift := cell_opt (map py_strip row) 4,
                 tep_cardiologist := cell_opt (map py_strip row) 5,
                 anesthesiologist_1 := cell_opt (map py_strip row) 6,
                 anesthesiologist_2 := cell_opt (map py_strip row) 7,
                 pediatric_cardiologist := cell_opt (map py_strip row) 8\<rparr>)
             (shifts st)\<rparr>)"
proof (cases "length row < 6")
  case True
  then show ?thesis by (simp add: resident_row_def resident_day_def)
next
  case False
  then have "row \<noteq> []" by auto
  with False have "map py_strip row ! 0 = py_strip (row ! 0)"
    "map py_strip row ! 1 = py_strip (row ! 1)" "map py_strip row ! 2 = py_strip (row ! 2)"
    by simp_all
  with False show ?thesis
    by (simp add: resident_row_def resident_day_def Let_def split: option.splits)
qed


lemma resident_row_keys:
  "fst ` set (shifts (resident_row st row)) =
     fst ` set (shifts st) \<union> set_option (resident_day row)"
  by (auto simp: resident_row_eq dom_update split: option.splits)



lemma resident_row_no_surgeons:
  "no_surgeons st \<Longrightarrow> no_surgeons (resident_row st row)"
  unfolding resident_row_eq
  by (auto simp: new_shift_def split: option.splits
           intro!: no_surgeons_update dest: no_surgeons_lookup)

lemma resident_rows_keys:
  "fst ` set (shifts (resident_rows st rows)) =
     fst ` set (shifts st) \<union> set (List.map_filter resident_day rows)"
  by (induction rows arbitrary: st)
     (auto simp: resident_row_keys split: option.splits)




lemma resident_rows_no_surgeons:
  "no_surgeons st \<Longrightarrow> no_surgeons (resident_rows st rows)"
  by (induction rows arbitrary: st) (auto simp: resident_row_no_surgeons)

lemma scan_months_shifts:
  "shifts (snd (scan_months ys t months st)) = shifts st"
  by (induction ys t months st rule: scan_months.induct)
     (auto simp: Let_def split: option.splits)

lemma extract_month_year_shifts:
  "shifts (snd (extract_month_year up ys paras st)) = shifts st"
proof (induction paras arbitrary: st)
  case Nil
  then show ?case by simp
next
  case (Cons para paras)
  obtain b st' where r: "scan_months ys (up (py_strip para)) GREEK_MONTHS st = (b, st')"
    by (cases "scan_months ys (up (py_strip para)) GREEK_MONTHS st")
  from scan_months_shifts [of ys "up (py_strip para)" GREEK_MONTHS st] r
  have "shifts st' = shifts st" by simp
  with r Cons.IH [of st'] show ?case by (cases b) simp_all
qed



lemma parse_TrueD:
  assumes "parse up ys (Some doc) st = (True, st')"
  shows "\<exists>st1. shifts st1 = shifts st \<and>
           st' = parse_resident_table (parse_attending_table st1 (tables doc ! 0)) (tables doc ! 1)"
proof -
  obtain b st1 where e: "extract_month_year up ys (paragraphs doc) st = (b, st1)"
    by (cases "extract_month_year up ys (paragraphs doc) st")
  from extract_month_year_shifts [of up ys "paragraphs doc" st] e
  have "shifts st1 = shifts st" by simp
  moreover from assms e
  have "st' = parse_resident_table (parse_attending_table st1 (tables doc ! 0)) (tables doc ! 1)"
    by (cases b) (auto simp: parse_def split: if_splits)
  ultimately show ?thesis by blast
qed

lemma parse_days:
  assumes "parse up ys (Some doc) init_parser = (True, st)"
  shows "fst ` set (shifts st) =
           days_attending (tables doc ! 0) \<union> days_resident (tables doc ! 1)"
proof -
  from parse_TrueD [OF assms] obtain st1 where
    "shifts st1 = shifts init_parser"
    and st: "st = resident_rows (parse_attending_table st1 (tables doc ! 0))
                    (drop 1 (tables doc ! 1))"
    unfolding parse_resident_table_def by blast
  then have "shifts st1 = []" by (simp add: init_parser_def)
  then show ?thesis
    unfolding st by (simp add: resident_rows_keys attending_table_keys days_resident_def)
qed

section \<open>The surgeon fields after a parse\<close>

text \<open>
  C10. After a successful parse of a month's document by a fresh parser, and before any
  update, every record of the shift set has its senior and its junior cardiac surgeon
  unset: the two table passes never write these two fields.
\<close>

theorem parse_no_surgeons:
  assumes "parse up ys (Some doc) init_parser = (True, st)"
  shows "\<forall>(d, s) \<in> set (shifts st).
           senior_cardiac_surgeon s = None \<and> junior_cardiac_surgeon s = None"
proof -
  from parse_TrueD [OF assms] obtain st1 where
    st1: "shifts st1 = shifts init_parser"
    and st: "st = parse_resident_table (parse_attending_table st1 (tables doc ! 0)) (tables doc ! 1)"
    by blast
  from st1 have "no_surgeons st1" by (simp add: no_surgeons_def init_parser_def)
  then have "no_surgeons st"
    unfolding st parse_resident_table_def
    by (intro resident_rows_no_surgeons attending_table_no_surgeons)
  then show ?thesis by (simp add: no_surgeons_def)
qed









section \<open>Merging the two tables\<close>


lemma scan_months_ok:
  "fst (scan_months ys t months st) \<longleftrightarrow>
     (\<exists>(name, num) \<in> set months. py_in name t) \<and> ys t \<noteq> None"
  by (induction ys t months st rule: scan_months.induct)
     (auto simp: Let_def split: option.splits)

lemma scan_months_set:
  "fst (scan_months ys t months st) \<Longrightarrow>
   month_number (snd (scan_months ys t months st)) \<noteq> None \<and>
   year (snd (scan_months ys t months st)) \<noteq> None"
  by (induction ys t months st rule: scan_months.induct)
     (auto simp: Let_def split: option.splits if_splits)

lemma extract_month_year_ok:
  "fst (extract_month_year up ys paras st) \<longleftrightarrow> has_marker up ys paras"
proof (induction paras arbitrary: st)
  case Nil
  then show ?case by (simp add: has_marker_def)
next
  case (Cons para paras)
  obtain b st' where r: "scan_months ys (up (py_strip para)) GREEK_MONTHS st = (b, st')"
    by (cases "scan_months ys (up (py_strip para)) GREEK_MONTHS st")
  from scan_months_ok [of ys "up (py_strip para)" GREEK_MONTHS st] r
  have b: "b \<longleftrightarrow> (\<exists>(name, num) \<in> set GREEK_MONTHS. py_in name (up (py_strip para))) \<and>
                  ys (up (py_strip para)) \<noteq> None"
    by simp
  then have hm: "has_marker up ys (para # paras) \<longleftrightarrow> b \<or> has_marker up ys paras"
    by (simp add: has_marker_def)
  show ?case
  proof (cases b)
    case True
    with r hm show ?thesis by simp
  next
    case False
    with r have "extract_month_year up ys (para # paras) st = extract_month_year up ys paras st'"
      by simp
    with Cons.IH [of st'] False hm show ?thesis by simp
  qed
qed

lemma extract_month_year_set:
  "fst (extract_month_year up ys paras st) \<Longrightarrow>
   month_number (snd (extract_month_year up ys paras st)) \<noteq> None \<and>
   year (snd (extract_month_year up ys paras st)) \<noteq> None"
proof (induction paras arbitrary: st)
  case Nil
  then show ?case by simp
next
  case (Cons para paras)
  obtain b st' where r: "scan_months ys (up (py_strip para)) GREEK_MONTHS st = (b, st')"
    by (cases "scan_months ys (up (py_strip para)) GREEK_MONTHS st")
  show ?case
  proof (cases b)
    case True
    with r scan_months_set [of ys "up (py_strip para)" GREEK_MONTHS st]
    show ?thesis by simp
  next
    case False
    with r Cons.prems Cons.IH [of st'] show ?thesis by simp
  qed
qed

lemma sample_extract:
  "extract_month_year (\<lambda>s. s) sample_year (paragraphs sample_doc) init_parser =
     (True, init_parser\<lparr>month_number := Some 10, year := Some 2025\<rparr>)"
  by (simp add: sample_doc_def sample_year_def GREEK_MONTHS_def u_def py_strip_def is_space_def init_parser_def)

lemma sample_parse:
  "parse (\<lambda>s. s) sample_year (Some sample_doc) init_parser =
     (True, parse_resident_table
              (parse_attending_table (init_parser\<lparr>month_number := Some 10, year := Some 2025\<rparr>)
                 (tables sample_doc ! 0))
              (tables sample_doc ! 1))"
  by (simp add: parse_def sample_extract) (simp add: sample_doc_def)

lemma sample_days_attending: "days_attending (tables sample_doc ! 0) = {1}"
  by (simp add: sample_doc_def days_attending_def attending_day_def List.map_filter_simps
        py_int_def int_unsigned_def is_digit_def u_def py_strip_def is_space_def)


lemma attending_row_month_year:
  "month_number (attending_row st row) = month_number st \<and>
   year (attending_row st row) = year st"
  by (simp add: attending_row_eq split: option.splits)

lemma attending_table_month_year:
  "month_number (parse_attending_table st rows) = month_number st \<and>
   year (parse_attending_table st rows) = year st"
  by (induction rows arbitrary: st) (simp_all add: attending_row_month_year)

lemma resident_row_month_year:
  "month_number (resident_row st row) = month_number st \<and>
   year (resident_row st row) = year st"
  by (simp add: resident_row_eq split: option.splits)

lemma resident_rows_month_year:
  "month_number (resident_rows st rows) = month_number st \<and>
   year (resident_rows st rows) = year st"
  by (induction rows arbitrary: st) (simp_all add: resident_row_month_year)

theorem parse_no_surgeons_witness:
  "fst (parse (\<lambda>s. s) sample_year (Some sample_doc) init_parser) \<and>
   shifts (snd (parse (\<lambda>s. s) sample_year (Some sample_doc) init_parser)) \<noteq> [] \<and>
   list_all (\<lambda>(d, s). senior_cardiac_surgeon s = None \<and> junior_cardiac_surgeon s = None)
     (shifts (snd (parse (\<lambda>s. s) sample_year (Some sample_doc) init_parser)))"
proof -
  let ?st = "snd (parse (\<lambda>s. s) sample_year (Some sample_doc) init_parser)"
  have h: "parse (\<lambda>s. s) sample_year (Some sample_doc) init_parser = (True, ?st)"
    by (simp add: sample_parse)
  from parse_days [OF h] have "fst ` set (shifts ?st) \<noteq> {}"
    by (simp add: sample_days_attending)
  then have "shifts ?st \<noteq> []" by auto
  moreover have "fst (parse (\<lambda>s. s) sample_year (Some sample_doc) init_parser)"
    by (simp add: sample_parse)
  ultimately show ?thesis using parse_no_surgeons [OF h] by (simp add: list_all_iff)
qed



section \<open>When the parse fails\<close>

text \<open>
  C2. On a loaded document the parse fails exactly when the month and year marker is
  absent (no paragraph holds a month name together with a year) or the document has
  fewer than two tables. With a marker and at least two tables it succeeds: it returns
  \<open>True\<close> with the month and the year set and the shifts of the two tables.
\<close>

theorem parse_fails_iff:
  "(\<not> fst (parse up ys (Some doc) st) \<longleftrightarrow>
      \<not> has_marker up ys (paragraphs doc) \<or> length (tables doc) < 2) \<and>
   (has_marker up ys (paragraphs doc) \<and> 2 \<le> length (tables doc) \<longrightarrow>
      (\<exists>st'. parse up ys (Some doc) st = (True, st') \<and>
             month_number st' \<noteq> None \<and> year st' \<noteq> None \<and>
             st' = parse_resident_table
                     (parse_attending_table (snd (extract_month_year up ys (paragraphs doc) st))
                        (tables doc ! 0))
                     (tables doc ! 1)))"
proof -
  obtain b st1 where e: "extract_month_year up ys (paragraphs doc) st = (b, st1)"
    by (cases "extract_month_year up ys (paragraphs doc) st")
  from extract_month_year_ok [of up ys "paragraphs doc" st] e
  have b: "b \<longleftrightarrow> has_marker up ys (paragraphs doc)" by simp
  from extract_month_year_set [of up ys "paragraphs doc" st] e
  have set: "b \<Longrightarrow> month_number st1 \<noteq> None \<and> year st1 \<noteq> None" by simp
  have my: "month_number (parse_resident_table (parse_attending_table st1 t1) t2) = month_number st1 \<and>
            year (parse_resident_table (parse_attending_table st1 t1) t2) = year st1" for t1 t2
    by (simp add: parse_resident_table_def resident_rows_month_year attending_table_month_year)
  show ?thesis
  proof (cases b)
    case True
    with e b set my show ?thesis by (auto simp: parse_def)
  next
    case False
    with e b show ?thesis by (simp add: parse_def)
  qed
qed

lemma sample_marker: "has_marker (\<lambda>s. s) sample_year (paragraphs sample_doc)"
  by (simp add: has_marker_def sample_doc_def sample_year_def GREEK_MONTHS_def u_def
        py_strip_def is_space_def)

theorem parse_fails_iff_witness:
  "has_marker (\<lambda>s. s) sample_year (paragraphs sample_doc) \<and>
   2 \<le> length (tables sample_doc) \<and>
   fst (parse (\<lambda>s. s) sample_year (Some sample_doc) init_parser) \<and>
   month_number (snd (parse (\<lambda>s. s) sample_year (Some sample_doc) init_parser)) \<noteq> None \<and>
   length (tables (sample_doc\<lparr>tables := []\<rparr>)) < 2 \<and>
   \<not> fst (parse (\<lambda>s. s) sample_year (Some (sample_doc\<lparr>tables := []\<rparr>)) init_parser)"
proof -
  have t: "2 \<le> length (tables sample_doc)" by (simp add: sample_doc_def)
  from parse_fails_iff [of "\<lambda>s. s" sample_year sample_doc init_parser] sample_marker t
  have "fst (parse (\<lambda>s. s) sample_year (Some sample_doc) init_parser) \<and>
        month_number (snd (parse (\<lambda>s. s) sample_year (Some sample_doc) init_parser)) \<noteq> None"
    by auto
  moreover
  from parse_fails_iff [of "\<lambda>s. s" sample_year "sample_doc\<lparr>tables := []\<rparr>" init_parser]
  have "\<not> fst (parse (\<lambda>s. s) sample_year (Some (sample_doc\<lparr>tables := []\<rparr>)) init_parser)"
    by simp
  ultimately show ?thesis using sample_marker t by simp
qed

lemma strip_all_space: "list_all is_space v \<Longrightarrow> py_strip v = []"
proof -
  assume "list_all is_space v"
  then have e: "dropWhile is_space v = []"
    by (induction v) auto
  show ?thesis unfolding py_strip_def e by simp
qed

lemma split_no_sep: "sep \<notin> set v \<Longrightarrow> py_split sep v = [v]"
  by (induction v) auto

lemma split_ABC: "py_split 44 (u '' A, B ,C'') = [u '' A'', u '' B '', u ''C'']"
  by (simp add: u_def)

lemma strip_ABC:
  "py_strip (u '' A'') = u ''A''" "py_strip (u '' B '') = u ''B''" "py_strip (u ''C'') = u ''C''"
  by (simp_all add: u_def py_strip_def is_space_def)

lemma role_field_not_attendings: "field \<in> set role_fields \<Longrightarrow> field \<noteq> u ''attendings''"
  by (auto simp: role_fields_def u_def)

lemma getattr_setattr_role:
  "field \<in> set role_fields \<Longrightarrow> getattr_role (setattr_role s field v) field = v"
  by (auto simp: role_fields_def setattr_role_def getattr_role_def u_def)

section \<open>The field update\<close>

text \<open>
  C5. For a day that is in the shift set, updating the field \<open>attendings\<close> with the
  value \<open>" A, B ,C"\<close> stores the list of the three names \<open>A\<close>, \<open>B\<close>, \<open>C\<close>
  (split at the commas and trimmed), and with a value of white space only it stores the
  empty list. Updating \<open>major_shift\<close> with the empty string, or any of the eight role
  fields with a value that is empty once trimmed, returns \<open>True\<close> and leaves that field
  unset (\<open>None\<close>), not an empty string.
\<close>

theorem update_shift_fields:
  assumes "map_of (shifts st) d = Some s"
  shows "update_shift st d (u ''attendings'') (u '' A, B ,C'') =
           (True, st\<lparr>shifts := AList.update d
                    (s\<lparr>attendings := [u ''A'', u ''B'', u ''C'']\<rparr>) (shifts st)\<rparr>) \<and>
         (list_all is_space v \<longrightarrow>
            update_shift st d (u ''attendings'') v =
              (True, st\<lparr>shifts := AList.update d (s\<lparr>attendings := []\<rparr>) (shifts st)\<rparr>)) \<and>
         update_shift st d (u ''major_shift'') [] =
           (True, st\<lparr>shifts := AList.update d (s\<lparr>major_shift := None\<rparr>) (shifts st)\<rparr>) \<and>
         (field \<in> set role_fields \<and> py_strip v = [] \<longrightarrow>
            update_shift st d field v =
              (True, st\<lparr>shifts := AList.update d (setattr_role s field None) (shifts st)\<rparr>) \<and>
            getattr_role (setattr_role s field None) field = None)"
proof -
  have a: "update_shift st d (u ''attendings'') (u '' A, B ,C'') =
           (True, st\<lparr>shifts := AList.update d
                    (s\<lparr>attendings := [u ''A'', u ''B'', u ''C'']\<rparr>) (shifts st)\<rparr>)"
    using assms by (simp add: update_shift_def split_ABC strip_ABC) (simp add: u_def)
  have b: "update_shift st d (u ''attendings'') v =
              (True, st\<lparr>shifts := AList.update d (s\<lparr>attendings := []\<rparr>) (shifts st)\<rparr>)"
    if "list_all is_space v"
  proof -
    from that have "44 \<notin> set v" by (auto simp: list_all_iff is_space_def)
    then have "py_split 44 v = [v]" by (rule split_no_sep)
    with that assms show ?thesis by (simp add: update_shift_def strip_all_space)
  qed
  have c: "update_shift st d f w =
              (True, st\<lparr>shifts := AList.update d (setattr_role s f None) (shifts st)\<rparr>)"
    if "f \<in> set role_fields" "py_strip w = []" for f w
    using that assms role_field_not_attendings [OF that(1)] by (simp add: update_shift_def)
  have "u ''major_shift'' \<in> set role_fields" by (simp add: role_fields_def)
  moreover have "py_strip [] = []" by (simp add: py_strip_def)
  ultimately have m: "update_shift st d (u ''major_shift'') [] =
           (True, st\<lparr>shifts := AList.update d (s\<lparr>major_shift := None\<rparr>) (shifts st)\<rparr>)"
    using c [of "u ''major_shift''" "[]"] by (simp add: setattr_role_def)
  from a b c m getattr_setattr_role show ?thesis by blast
qed

theorem update_shift_fields_witness:
  "map_of (shifts sample_state) 1 = Some (new_shift 1 [] [] [u ''X'']) \<and>
   list_all is_space (u ''  '') \<and>
   u ''tep_cardiologist'' \<in> set role_fields \<and> py_strip (u '' '') = [] \<and>
   update_shift sample_state 1 (u ''attendings'') (u '' A, B ,C'') =
     (True, sample_state\<lparr>shifts :=
        [(1, new_shift 1 [] [] [u ''A'', u ''B'', u ''C''])]\<rparr>) \<and>
   update_shift sample_state 1 (u ''attendings'') (u ''  '') =
     (True, sample_state\<lparr>shifts := [(1, new_shift 1 [] [] [])]\<rparr>) \<and>
   fst (update_shift sample_state 1 (u ''tep_cardiologist'') (u '' ''))"
proof -
  have s: "map_of (shifts sample_state) 1 = Some (new_shift 1 [] [] [u ''X''])"
    by (simp add: sample_state_def)
  have w: "list_all is_space (u ''  '')" "py_strip (u '' '') = []"
    by (simp_all add: u_def is_space_def py_strip_def)
  have r: "u ''tep_cardiologist'' \<in> set role_fields"
    by (simp add: role_fields_def)
  from update_shift_fields [OF s, of "u ''  ''" "u ''tep_cardiologist''"] w(1)
  have "update_shift sample_state 1 (u ''attendings'') (u '' A, B ,C'') =
     (True, sample_state\<lparr>shifts :=
        [(1, new_shift 1 [] [] [u ''A'', u ''B'', u ''C''])]\<rparr>) \<and>
   update_shift sample_state 1 (u ''attendings'') (u ''  '') =
     (True, sample_state\<lparr>shifts := [(1, new_shift 1 [] [] [])]\<rparr>)"
    by (simp add: sample_state_def new_shift_def)
  moreover
  from update_shift_fields [OF s, of "u '' ''" "u ''tep_cardiologist''"] w(2) r
  have "fst (update_shift sample_state 1 (u ''tep_cardiologist'') (u '' ''))"
    by simp
  ultimately show ?thesis using s w r by simp
qed

section \<open>Decimal text of an integer\<close>

lemma is_digit_48: "n < 10 \<Longrightarrow> is_digit (48 + n)"
  by (simp add: is_digit_def)

















section \<open>The snapshot round trip\<close>



section \<open>The scenario row\<close>

lemma match_A: "match_abbr HOSPITAL_NAMES (GN @ nos_A) = None"
  by (simp add: HOSPITAL_NAMES_def GN_def nos_A_def)

lemma match_B: "match_abbr HOSPITAL_NAMES (GN @ nos_B) = None"
  by (simp add: HOSPITAL_NAMES_def GN_def nos_B_def)

lemma extract_A: "extract_hospital_names nos_A = [GN @ nos_A]"
proof -
  have "with_prefix nos_A = GN @ nos_A"
    by (simp add: with_prefix_def nos_A_def G_dot_def P_dot_def N_dot_def)
  moreover have "py_strip nos_A = nos_A" "nos_A \<noteq> []" "re_split nos_A = [nos_A]"
    by (simp_all add: nos_A_def py_strip_def is_space_def GN_def)
  moreover have "looks_like_hospital (GN @ nos_A)"
    by (simp add: looks_like_hospital_def GN_def nos_A_def)
  ultimately show ?thesis
    by (simp add: extract_hospital_names_def match_A)
qed

lemma extract_B: "extract_hospital_names nos_B = [GN @ nos_B]"
proof -
  have "with_prefix nos_B = GN @ nos_B"
    by (simp add: with_prefix_def nos_B_def G_dot_def P_dot_def N_dot_def)
  moreover have "py_strip nos_B = nos_B" "nos_B \<noteq> []" "re_split nos_B = [nos_B]"
    by (simp_all add: nos_B_def py_strip_def is_space_def GN_def)
  moreover have "looks_like_hospital (GN @ nos_B)"
    by (simp add: looks_like_hospital_def GN_def nos_B_def)
  ultimately show ?thesis
    by (simp add: extract_hospital_names_def match_B)
qed

lemma specialty_cardiology: "map_of SPECIALTY_NAMES cardiology_raw = Some cardiology_display"
  by (simp add: SPECIALTY_NAMES_def cardiology_raw_def cardiology_display_def u_def)

lemma specialty_of_cardiology: "specialty_of (Some cardiology_raw # cells) = cardiology_raw"
  by (simp add: specialty_of_def cardiology_raw_def py_strip_def is_space_def)

lemma cardiology_not_header: "cardiology_raw \<noteq> [] \<and> cardiology_raw \<noteq> header_marker"
  by (simp add: cardiology_raw_def header_marker_def)

text \<open>
  C8. The row of the cardiology clinic with the institution \<open>nos_A\<close> in column 2 and
  \<open>nos_B\<close> in column 5, the other slot cells empty, gives exactly two records. Both
  carry the bilingual cardiology label; the first has the name the tokenizer gives
  \<open>nos_A\<close> and the time slot of column 2, 08:00-16:00, the second the name it gives
  \<open>nos_B\<close> and the time slot of column 5, 08:00-08:00 of the next day. The columns of
  the time slots are the fixed ones, 1 to 5: the row is processed without the header.
\<close>

theorem cardiology_row:
  "pdf_row [] scenario_row duty_date =
     [new_hospital (GN @ nos_A) cardiology_display (u ''08:00-16:00'') duty_date,
      new_hospital (GN @ nos_B) cardiology_display
        (u ''08:00-08:00 '' @ [949, 960, 959, 956, 941, 957, 951, 962]) duty_date] \<and>
   extract_hospital_names nos_A = [GN @ nos_A] \<and>
   extract_hospital_names nos_B = [GN @ nos_B] \<and>
   map snd time_slots = [1, 2, 3, 4, 5]"
proof -
  have "nos_A \<noteq> []" "nos_B \<noteq> []" by (simp_all add: nos_A_def nos_B_def)
  then have "pdf_row [] scenario_row duty_date =
     [new_hospital (GN @ nos_A) cardiology_display (u ''08:00-16:00'') duty_date,
      new_hospital (GN @ nos_B) cardiology_display
        (u ''08:00-08:00 '' @ [949, 960, 959, 956, 941, 957, 951, 962]) duty_date]"
    using cardiology_not_header
    by (simp add: pdf_row_def scenario_row_def specialty_of_cardiology specialty_cardiology
          time_slots_def extract_A extract_B Let_def)
  then show ?thesis by (simp add: extract_A extract_B time_slots_def)
qed

section \<open>Repeated matches\<close>

lemma match_KAT:
  "match_abbr HOSPITAL_NAMES (GN @ KAT) =
     Some [915, 949, 957, 953, 954, 972, 32, 925, 959, 963, 959, 954, 959, 956, 949,
           943, 959, 32, 913, 952, 951, 957, 974, 957, 32, 171, 922, 913, 932, 187]"
  by (simp add: HOSPITAL_NAMES_def GN_def KAT_def)

lemma extract_KAT_twice:
  "extract_hospital_names (KAT @ 10 # KAT) =
     [the (match_abbr HOSPITAL_NAMES (GN @ KAT)), the (match_abbr HOSPITAL_NAMES (GN @ KAT))]"
proof -
  have "with_prefix KAT = GN @ KAT"
    by (simp add: with_prefix_def KAT_def G_dot_def P_dot_def N_dot_def)
  moreover have "py_strip KAT = KAT" "KAT \<noteq> []" "re_split (KAT @ 10 # KAT) = [KAT, KAT]"
    "py_strip (KAT @ 10 # KAT) = KAT @ 10 # KAT"
    by (simp_all add: KAT_def py_strip_def is_space_def GN_def)
  ultimately show ?thesis
    by (simp add: extract_hospital_names_def match_KAT)
qed

text \<open>
  C1, as stated, fails: a cell that names one institution on two lines gives two
  records with the same hospital, specialty, time slot and date.
\<close>

theorem repeated_match_counterexample:
  "\<not> distinct (map record_key (parse_pdf repeated_pdf (u ''2025-10-14'')))"
proof -
  have h: "is_header_row [Some header_marker, Some (u ''08:00-14:30'')]"
    by (simp add: is_header_row_def header_marker_def)
  have "KAT @ [10] @ KAT \<noteq> []" by (simp add: KAT_def)
  then have "parse_pdf repeated_pdf (u ''2025-10-14'') =
    [new_hospital (the (match_abbr HOSPITAL_NAMES (GN @ KAT))) cardiology_display
       (u ''08:00-14:30'') (u ''2025-10-14''),
     new_hospital (the (match_abbr HOSPITAL_NAMES (GN @ KAT))) cardiology_display
       (u ''08:00-14:30'') (u ''2025-10-14'')]"
    using cardiology_not_header
    by (simp add: parse_pdf_def repeated_pdf_def pdf_table_def h pdf_row_def
          specialty_of_cardiology specialty_cardiology time_slots_def extract_KAT_twice Let_def)
  then show ?thesis by simp
qed

section \<open>A date without a file\<close>

lemma find_file_None:
  "\<forall>(file_text, fdl, file_type) \<in> set files. \<not> py_in label file_text \<Longrightarrow>
   find_file label files = None"
  by (induction files) auto

lemma greek_months_total:
  assumes "1 \<le> m" "m \<le> 12"
  shows "\<exists>month. map_of greek_months m = Some month"
proof -
  from assms have "m \<in> {1, 2, 3, 4, 5, 6, 7, 8, 9, 10, 11, 12}" by simp presburger
  then show ?thesis by (auto simp: greek_months_def)
qed

text \<open>
  C9. For a date (its month is one of the twelve) the label is built from the day, the
  Greek month name and the year; when no file of the listing contains that label, the
  extraction returns the empty list of records, and it returns it normally: no error is
  raised.
\<close>

theorem no_label_no_records:
  assumes "1 \<le> date_month d" "date_month d \<le> 12"
  shows "\<exists>month. map_of greek_months (date_month d) = Some month \<and>
           ((\<forall>(file_text, fdl, file_type) \<in> set files. \<not> py_in (date_label d month) file_text) \<longrightarrow>
            get_schedule_for_date files download read_pdf d = Inr [])"
proof -
  from greek_months_total [OF assms] obtain month where
    m: "map_of greek_months (date_month d) = Some month" by blast
  have "get_schedule_for_date files download read_pdf d = Inr []"
    if "\<forall>(file_text, fdl, file_type) \<in> set files. \<not> py_in (date_label d month) file_text"
    using find_file_None [OF that] m by (simp add: get_schedule_for_date_def)
  with m show ?thesis by blast
qed

section \<open>The tokenizer piece by piece\<close>










section \<open>Cells of one mention per line\<close>






















lemma sample_month:
  "map_of greek_months (date_month sample_date) = Some [927, 922, 932, 937, 914, 929, 921, 927, 933]"
  by (simp add: greek_months_def sample_date_def)

lemma sample_label:
  "date_label sample_date [927, 922, 932, 937, 914, 929, 921, 927, 933] =
     u ''14 '' @ [927, 922, 932, 937, 914, 929, 921, 927, 933] @ u '' 2025''"
  by (simp add: date_label_def sample_date_def py_str_def str_nat.simps u_def)

theorem no_label_no_records_witness:
  "1 \<le> date_month sample_date \<and> date_month sample_date \<le> 12 \<and>
   list_all (\<lambda>(file_text, fdl, file_type).
      \<not> py_in (date_label sample_date [927, 922, 932, 937, 914, 929, 921, 927, 933]) file_text)
     sample_files \<and>
   get_schedule_for_date sample_files (\<lambda>fdl. None) (\<lambda>content. None) sample_date = Inr []"
proof -
  have r: "1 \<le> date_month sample_date" "date_month sample_date \<le> 12"
    by (simp_all add: sample_date_def)
  have n: "list_all (\<lambda>(file_text, fdl, file_type).
      \<not> py_in (date_label sample_date [927, 922, 932, 937, 914, 929, 921, 927, 933]) file_text)
     sample_files"
    by (simp add: sample_label sample_files_def u_def)
  from no_label_no_records [OF r, of sample_files "\<lambda>fdl. None" "\<lambda>content. None"]
    sample_month n
  have "get_schedule_for_date sample_files (\<lambda>fdl. None) (\<lambda>content. None) sample_date = Inr []"
    by (auto simp: list_all_iff)
  with r n show ?thesis by simp
qed

section \<open>The records of a document\<close>

lemma extract_empty: "extract_hospital_names [] = []"
  by (simp add: extract_hospital_names_def)

lemma slots_loop_records:
  "slots_loop hs row display d slots = hs @ concat (map (slot_records row display d) slots)"
proof (induction slots arbitrary: hs)
  case Nil
  then show ?case by simp
next
  case (Cons slot slots)
  obtain label col where s: "slot = (label, col)" by (cases slot)
  show ?case
    unfolding s
    by (simp add: Cons.IH slot_records_def extract_empty split: option.splits)
qed

lemma pdf_row_records: "pdf_row hs row d = hs @ row_records row d"
proof (cases "is_data_row row")
  case True
  then have "row \<noteq> []" "\<not> length row < 2" by (auto simp: is_data_row_def)
  with True show ?thesis
    by (simp add: pdf_row_def row_records_def is_data_row_def display_of_def Let_def
          slots_loop_records)
next
  case False
  then have "row = [] \<or> length row < 2 \<or> specialty_of row = [] \<or> specialty_of row = header_marker"
    by (auto simp: is_data_row_def)
  with False show ?thesis
    by (auto simp: pdf_row_def row_records_def Let_def)
qed

lemma rows_loop_records:
  "rows_loop hs rows d = hs @ concat (map (\<lambda>row. row_records row d) rows)"
  by (induction rows arbitrary: hs) (simp_all add: pdf_row_records)

lemma pdf_table_records: "pdf_table hs table d = hs @ table_records table d"
proof (cases "length table < 2")
  case True
  then show ?thesis
    by (simp add: pdf_table_def table_records_def rows_below_header_def)
next
  case False
  then have "table \<noteq> []" by auto
  with False show ?thesis
    by (simp add: pdf_table_def table_records_def rows_below_header_def rows_loop_records
          split: option.splits)
qed

lemma tables_loop_records:
  "tables_loop hs tbls d = hs @ concat (map (\<lambda>table. table_records table d) tbls)"
  by (induction tbls arbitrary: hs) (simp_all add: pdf_table_records)

lemma pages_loop_records:
  "pages_loop hs pages d =
     hs @ concat (map (\<lambda>table. table_records table d) (readable_tables pages))"
  by (induction hs pages d rule: pages_loop.induct) (simp_all add: tables_loop_records)

text \<open>
  C1, amended. The list returned for a document is made, in the order they are met, of
  the records of every table of every page read, every row below the header and every
  slot cell: one record for each name the tokenizer gives for the cell. Nothing is
  removed from it, so its length is the number of all these names and a key that is
  matched twice is in it twice.
\<close>

theorem parse_pdf_records:
  "parse_pdf (Some pages) duty_date =
     concat (map (\<lambda>table. table_records table duty_date) (readable_tables pages)) \<and>
   length (parse_pdf (Some pages) duty_date) =
     (\<Sum>table \<leftarrow> readable_tables pages. length (table_records table duty_date))"
proof -
  have "parse_pdf (Some pages) duty_date =
     concat (map (\<lambda>table. table_records table duty_date) (readable_tables pages))"
    by (simp add: parse_pdf_def pages_loop_records)
  then show ?thesis by (simp add: length_concat comp_def)
qed

theorem parse_pdf_records_witness:
  "parse_pdf repeated_pdf (u ''2025-10-14'') =
     [new_hospital (the (map_of HOSPITAL_NAMES KAT)) cardiology_display
        (u ''08:00-14:30'') (u ''2025-10-14''),
      new_hospital (the (map_of HOSPITAL_NAMES KAT)) cardiology_display
        (u ''08:00-14:30'') (u ''2025-10-14'')]"
proof -
  have h: "is_header_row [Some header_marker, Some (u ''08:00-14:30'')]"
    by (simp add: is_header_row_def header_marker_def)
  have k: "map_of HOSPITAL_NAMES KAT = match_abbr HOSPITAL_NAMES (GN @ KAT)"
    by (simp add: match_KAT) (simp add: HOSPITAL_NAMES_def KAT_def)
  have d: "is_data_row [Some cardiology_raw, Some (KAT @ 10 # KAT)]"
    using cardiology_not_header by (simp add: is_data_row_def specialty_of_cardiology)
  have "table_records [[Some header_marker, Some (u ''08:00-14:30'')],
                       [Some cardiology_raw, Some (KAT @ 10 # KAT)]] (u ''2025-10-14'') =
     [new_hospital (the (map_of HOSPITAL_NAMES KAT)) cardiology_display
        (u ''08:00-14:30'') (u ''2025-10-14''),
      new_hospital (the (map_of HOSPITAL_NAMES KAT)) cardiology_display
        (u ''08:00-14:30'') (u ''2025-10-14'')]"
    by (simp add: table_records_def rows_below_header_def h row_records_def d display_of_def
          specialty_of_cardiology specialty_cardiology time_slots_def slot_records_def
          extract_KAT_twice k)
  with parse_pdf_records [of "[Some [[[Some header_marker, Some (u ''08:00-14:30'')],
                       [Some cardiology_raw, Some (KAT @ 10 # KAT)]]]]" "u ''2025-10-14''"]
  show ?thesis by (simp add: repeated_pdf_def)
qed

end
